theory Spec2Isabelle
  imports Main "HOL-Library.Sublist"
begin

section \<open>JavaScript values as the dispatcher sees them\<close>

text \<open>
  The request body handed to the POST handler is whatever \<^verbatim>\<open>express.json()\<close> left in
  \<^verbatim>\<open>req.body\<close>: a parsed JSON value, or \<^verbatim>\<open>undefined\<close> when no body was parsed. The
  values the backend SDK resolves with are plain JSON-shaped objects as well. An object
  is the list of its own properties. Numbers are modelled as integers, \<open>JNum n\<close>
  standing for the double nearest to \<open>n\<close>: the program does no arithmetic on them, it
  only tests them for zero and prints them.
\<close>

datatype json =
    JUndefined
  | JNull
  | JBool bool
  | JNum int
  | JStr string
  | JArr "json list"
  | JObj "(string \<times> json) list"

text \<open>JavaScript truthiness: \<^verbatim>\<open>undefined\<close>, \<^verbatim>\<open>null\<close>, \<^verbatim>\<open>false\<close>, \<^verbatim>\<open>0\<close> and \<^verbatim>\<open>''\<close> are falsy.\<close>

fun truthy :: "json \<Rightarrow> bool" where
  "truthy JUndefined = False"
| "truthy JNull = False"
| "truthy (JBool b) = b"
| "truthy (JNum n) = (n \<noteq> 0)"
| "truthy (JStr s) = (s \<noteq> [])"
| "truthy (JArr xs) = True"
| "truthy (JObj kvs) = True"

text \<open>
  \<^verbatim>\<open>a || b\<close> on values.
\<close>

definition orElse :: "json \<Rightarrow> json \<Rightarrow> json" where
  "orElse a b = (if truthy a then a else b)"

text \<open>
  Property read \<^verbatim>\<open>v.k\<close> on a value that is neither \<^verbatim>\<open>null\<close> nor \<^verbatim>\<open>undefined\<close>. Besides own
  properties of objects the only property the program ever reads that a JSON value can
  carry is \<^verbatim>\<open>length\<close> of an array or a string. Every read in the POST handler is guarded
  so that its receiver is truthy; reads that may hit \<^verbatim>\<open>null\<close> go through \<open>readProp\<close>
  below, which throws.
\<close>

fun getProp :: "json \<Rightarrow> string \<Rightarrow> json" where
  "getProp (JObj kvs) k = (case map_of kvs k of Some v \<Rightarrow> v | None \<Rightarrow> JUndefined)"
| "getProp (JArr xs) k = (if k = ''length'' then JNum (int (length xs)) else JUndefined)"
| "getProp (JStr s) k = (if k = ''length'' then JNum (int (length s)) else JUndefined)"
| "getProp v k = JUndefined"

text \<open>Optional chaining \<^verbatim>\<open>v?.k\<close>: \<^verbatim>\<open>undefined\<close> when the receiver is \<^verbatim>\<open>null\<close> or \<^verbatim>\<open>undefined\<close>.\<close>

definition optGet :: "json \<Rightarrow> string \<Rightarrow> json" where
  "optGet v k = (if v = JNull \<or> v = JUndefined then JUndefined else getProp v k)"

subsection \<open>Printing\<close>

definition digitChar :: "nat \<Rightarrow> char" where
  "digitChar d = (''0123456789abcdefghijklmnopqrstuvwxyz'') ! d"

text \<open>\<^verbatim>\<open>n.toString(b)\<close> for a non-negative integer and a radix between 2 and 36.\<close>

fun showRadix :: "nat \<Rightarrow> nat \<Rightarrow> string" where
  "showRadix b n =
     (if b < 2 \<or> n < b then [digitChar n] else showRadix b (n div b) @ [digitChar (n mod b)])"

definition showNat :: "nat \<Rightarrow> string" where
  "showNat n = showRadix 10 n"

fun joinWith :: "string \<Rightarrow> string list \<Rightarrow> string" where
  "joinWith sep [] = []"
| "joinWith sep [x] = x"
| "joinWith sep (x # y # ys) = x @ sep @ joinWith sep (y # ys)"

declare showRadix.simps [simp del]

text \<open>
  Printing a number. An integer of at most 53 bits is a double and prints as its decimal
  digits. A longer one is first rounded to the nearest double (ties to the even
  significand, overflow to \<^verbatim>\<open>Infinity\<close>) and then printed with the fewest significant
  digits that still read back as that double, padded with zeros below \<open>10\<^sup>2\<^sup>1\<close> and in
  exponent notation from there on.
\<close>

fun bitLength :: "nat \<Rightarrow> nat" where
  "bitLength n = (if n = 0 then 0 else Suc (bitLength (n div 2)))"

declare bitLength.simps [simp del]

definition roundDouble :: "nat \<Rightarrow> nat" where
  "roundDouble n =
     (if bitLength n \<le> 53 then n
      else
        let u = 2 ^ (bitLength n - 53); q = n div u; r = n mod u
        in if u < 2 * r \<or> (2 * r = u \<and> odd q) then (q + 1) * u else q * u)"

text \<open>
  The decimal with \<open>k\<close> significant digits that reads back as the double \<open>v\<close>, if there
  is one: the nearer of the two neighbours of \<open>v\<close> on that grid, the even one on a tie.
\<close>

definition pick :: "nat \<Rightarrow> nat \<Rightarrow> nat option" where
  "pick v k =
     (let s = 10 ^ (length (showNat v) - k); lo = (v div s) * s; hi = lo + s;
          okLo = (roundDouble lo = v); okHi = (roundDouble hi = v)
      in if okLo \<and> okHi then
           (if v - lo < hi - v then Some lo
            else if hi - v < v - lo then Some hi
            else if even (lo div s) then Some lo else Some hi)
         else if okLo then Some lo
         else if okHi then Some hi
         else None)"

fun shortestFrom :: "nat \<Rightarrow> nat \<Rightarrow> nat \<Rightarrow> nat" where
  "shortestFrom v k 0 = v"
| "shortestFrom v k (Suc fuel) =
     (case pick v k of Some c \<Rightarrow> c | None \<Rightarrow> shortestFrom v (Suc k) fuel)"

definition shortest :: "nat \<Rightarrow> nat" where
  "shortest v = shortestFrom v 1 (length (showNat v))"

fun dropZeros :: "string \<Rightarrow> string" where
  "dropZeros [] = []"
| "dropZeros (c # cs) = (if c = CHR ''0'' then dropZeros cs else c # cs)"

definition showExponent :: "nat \<Rightarrow> string" where
  "showExponent c =
     (let ds = showNat c; m = rev (dropZeros (rev ds))
      in (case m of
            [] \<Rightarrow> ''0''
          | d # rest \<Rightarrow>
              d # (if rest = [] then [] else ''.'' @ rest) @ ''e+'' @ showNat (length ds - 1)))"

definition showMagnitude :: "nat \<Rightarrow> string" where
  "showMagnitude n =
     (let v = roundDouble n
      in if 2 ^ 1024 \<le> v then ''Infinity''
         else let c = shortest v in if c < 10 ^ 21 then showNat c else showExponent c)"

definition numberToString :: "int \<Rightarrow> string" where
  "numberToString i =
     (if i < 0 then ''-'' @ showMagnitude (nat (- i)) else showMagnitude (nat i))"

fun sequence :: "'a option list \<Rightarrow> 'a list option" where
  "sequence [] = Some []"
| "sequence (None # xs) = None"
| "sequence (Some x # xs) = (case sequence xs of None \<Rightarrow> None | Some ys \<Rightarrow> Some (x # ys))"

text \<open>
  String conversion as a template literal performs it; \<open>None\<close> stands for the
  TypeError \<^verbatim>\<open>Cannot convert object to primitive value\<close>. A plain object prints as
  \<^verbatim>\<open>[object Object]\<close> through the inherited \<^verbatim>\<open>toString\<close>; an object with an own
  \<^verbatim>\<open>toString\<close> property, which after JSON parsing is never a function, cannot be
  converted. An array joins the conversions of its elements with commas, \<^verbatim>\<open>null\<close> and
  \<^verbatim>\<open>undefined\<close> elements printing as nothing.
\<close>

fun jsToString :: "json \<Rightarrow> string option" where
  "jsToString JUndefined = Some ''undefined''"
| "jsToString JNull = Some ''null''"
| "jsToString (JBool b) = Some (if b then ''true'' else ''false'')"
| "jsToString (JNum n) = Some (numberToString n)"
| "jsToString (JStr s) = Some s"
| "jsToString (JArr xs) =
     (case sequence (map (\<lambda>x. if x = JNull \<or> x = JUndefined then Some [] else jsToString x) xs) of
        None \<Rightarrow> None
      | Some parts \<Rightarrow> Some (joinWith '','' parts))"
| "jsToString (JObj kvs) =
     (case map_of kvs ''toString'' of None \<Rightarrow> Some ''[object Object]'' | Some f \<Rightarrow> None)"

definition cannotConvert :: string where
  "cannotConvert = ''Cannot convert object to primitive value''"

text \<open>
  A template literal: its fixed parts and its substitutions, converted from left to
  right.
\<close>

datatype piece = Lit string | Sub json

fun render :: "piece list \<Rightarrow> string option" where
  "render [] = Some []"
| "render (Lit s # ps) = (case render ps of None \<Rightarrow> None | Some t \<Rightarrow> Some (s @ t))"
| "render (Sub v # ps) =
     (case jsToString v of
        None \<Rightarrow> None
      | Some s \<Rightarrow> (case render ps of None \<Rightarrow> None | Some t \<Rightarrow> Some (s @ t)))"

text \<open>
  \<^verbatim>\<open>console.log(format, arg)\<close> with one argument after the format string. The
  formatter hands the argument to the first placeholder of the format string;
  \<^verbatim>\<open>%d\<close>, \<^verbatim>\<open>%i\<close> and \<^verbatim>\<open>%f\<close> convert it with \<^verbatim>\<open>Number\<close>, \<^verbatim>\<open>parseInt\<close> and
  \<^verbatim>\<open>parseFloat\<close>, which throw where the string conversion throws; the other
  placeholders inspect it and never throw. \<^verbatim>\<open>%%\<close> and a percent sign before any other
  character take no argument.
\<close>

fun firstPlaceholder :: "string \<Rightarrow> char option" where
  "firstPlaceholder [] = None"
| "firstPlaceholder [c] = None"
| "firstPlaceholder (c # d # cs) =
     (if c = CHR ''%'' then (if d \<in> set ''sjdOoifc'' then Some d else firstPlaceholder cs)
      else firstPlaceholder (d # cs))"

definition logThrows :: "string \<Rightarrow> json \<Rightarrow> bool" where
  "logThrows format arg =
     (case firstPlaceholder format of
        None \<Rightarrow> False
      | Some d \<Rightarrow> d \<in> set ''dif'' \<and> jsToString arg = None)"

subsection \<open>Serialisation\<close>

definition nl :: string where
  "nl = [CHR 0x0A]"

definition dq :: string where
  "dq = [CHR 0x22]"

definition escapeChar :: "char \<Rightarrow> string" where
  "escapeChar c =
     (if c = CHR 0x22 then [CHR 0x5C, CHR 0x22]
      else if c = CHR 0x5C then [CHR 0x5C, CHR 0x5C]
      else if c = CHR 0x08 then [CHR 0x5C, CHR ''b'']
      else if c = CHR 0x0C then [CHR 0x5C, CHR ''f'']
      else if c = CHR 0x0A then [CHR 0x5C, CHR ''n'']
      else if c = CHR 0x0D then [CHR 0x5C, CHR ''r'']
      else if c = CHR 0x09 then [CHR 0x5C, CHR ''t'']
      else if (of_char c :: nat) < 32
        then [CHR 0x5C, CHR ''u'', CHR ''0'', CHR ''0'',
              digitChar (of_char c div 16), digitChar (of_char c mod 16)]
      else [c])"

definition quote :: "string \<Rightarrow> string" where
  "quote s = dq @ concat (map escapeChar s) @ dq"

text \<open>
  \<^verbatim>\<open>JSON.stringify(v)\<close> without indentation: a property whose value is \<^verbatim>\<open>undefined\<close> is
  left out of an object, an \<^verbatim>\<open>undefined\<close> array element is written \<^verbatim>\<open>null\<close>, and so is
  a number that is not finite.
\<close>

fun stringify :: "json \<Rightarrow> string" where
  "stringify JUndefined = ''undefined''"
| "stringify JNull = ''null''"
| "stringify (JBool b) = (if b then ''true'' else ''false'')"
| "stringify (JNum n) =
     (if numberToString n = ''Infinity'' \<or> numberToString n = ''-Infinity'' then ''null''
      else numberToString n)"
| "stringify (JStr s) = quote s"
| "stringify (JArr xs) =
     ''['' @ joinWith '','' (map (\<lambda>x. if x = JUndefined then ''null'' else stringify x) xs) @ '']''"
| "stringify (JObj kvs) =
     ''{'' @ joinWith '',''
        (map (\<lambda>kv. quote (fst kv) @ '':'' @ stringify (snd kv))
             (filter (\<lambda>kv. snd kv \<noteq> JUndefined) kvs)) @ ''}''"

text \<open>
  What the peer finds under key \<open>k\<close> of a serialised object: a property holding
  \<^verbatim>\<open>undefined\<close> is not sent.
\<close>

definition hasField :: "json \<Rightarrow> string \<Rightarrow> bool" where
  "hasField v k = (getProp v k \<noteq> JUndefined)"

section \<open>The backend connection and the tool handlers\<close>

text \<open>
  Every awaited call on \<^verbatim>\<open>this.azureConnection\<close> or on one of the API objects it hands out
  is a \<open>call\<close>. The connection is modelled as a test double. To one of the three
  requests for an API object it answers with \<open>Inl msg\<close> when the promise rejects with
  that message, with \<open>Inr None\<close> when it resolves with an API object, and with
  \<open>Inr (Some v)\<close> when it resolves with the JSON value \<open>v\<close> instead (\<^verbatim>\<open>null\<close>, say),
  which has no methods. To a call on an API object it answers with the value the promise
  resolves with or with the message of the error it rejects with. A handler yields its
  outcome together with the calls it made, in order.
\<close>

datatype call =
    GetWorkItemTrackingApi
  | GetCoreApi
  | GetGitApi
  | GetWorkItem json
  | GetProjects
  | GetProject json
  | CreateWorkItem json json json
  | QueryByWiql json
  | GetWorkItems json
  | GetRepositories json
  | GetRepository json json

record adapter =
  connect :: "call \<Rightarrow> string + json option"
  respond :: "call \<Rightarrow> string + json"

type_synonym 'a io = "(string + 'a) \<times> call list"

definition ret :: "'a \<Rightarrow> 'a io" where
  "ret x = (Inr x, [])"

definition throw :: "string \<Rightarrow> 'a io" where
  "throw msg = (Inl msg, [])"

definition bind :: "'a io \<Rightarrow> ('a \<Rightarrow> 'b io) \<Rightarrow> 'b io" where
  "bind m f =
     (case m of
        (Inl e, cs) \<Rightarrow> (Inl e, cs)
      | (Inr x, cs) \<Rightarrow> (case f x of (r, cs') \<Rightarrow> (r, cs @ cs')))"

definition catch :: "'a io \<Rightarrow> (string \<Rightarrow> 'a io) \<Rightarrow> 'a io" where
  "catch m h =
     (case m of
        (Inl e, cs) \<Rightarrow> (case h e of (r, cs') \<Rightarrow> (r, cs @ cs'))
      | (Inr x, cs) \<Rightarrow> (Inr x, cs))"

definition getApi :: "adapter \<Rightarrow> call \<Rightarrow> json option io" where
  "getApi conn c = (connect conn c, [c])"

definition invoke :: "adapter \<Rightarrow> call \<Rightarrow> json io" where
  "invoke conn c = (respond conn c, [c])"

text \<open>A template literal as an expression: it yields the text or throws the TypeError.\<close>

definition template :: "piece list \<Rightarrow> string io" where
  "template ps = (case render ps of None \<Rightarrow> throw cannotConvert | Some s \<Rightarrow> ret s)"

text \<open>
  A property read whose receiver may be \<^verbatim>\<open>null\<close> or \<^verbatim>\<open>undefined\<close> throws a TypeError
  (the message is the one V8 gives).
\<close>

definition readProp :: "json \<Rightarrow> string \<Rightarrow> json io" where
  "readProp v k =
     (if v = JNull then throw (''Cannot read properties of null (reading '' @ [CHR 0x27] @ k @ [CHR 0x27] @ '')'')
      else if v = JUndefined
        then throw (''Cannot read properties of undefined (reading '' @ [CHR 0x27] @ k @ [CHR 0x27] @ '')'')
      else ret (getProp v k))"

text \<open>
  Looking up the method \<open>m\<close> on what a request for an API object resolved with, \<open>expr\<close>
  being the source text of the receiver: an API object has it, \<^verbatim>\<open>null\<close> and
  \<^verbatim>\<open>undefined\<close> cannot be read, and any other JSON value has no function under that
  name.
\<close>

definition member :: "string \<Rightarrow> json option \<Rightarrow> string \<Rightarrow> unit io" where
  "member expr api m =
     (case api of
        None \<Rightarrow> ret ()
      | Some v \<Rightarrow>
          if v = JNull \<or> v = JUndefined then bind (readProp v m) (\<lambda>f. ret ())
          else throw (expr @ ''.'' @ m @ '' is not a function''))"

fun mapIO :: "('a \<Rightarrow> 'b io) \<Rightarrow> 'a list \<Rightarrow> 'b list io" where
  "mapIO f [] = ret []"
| "mapIO f (x # xs) = bind (f x) (\<lambda>y. bind (mapIO f xs) (\<lambda>ys. ret (y # ys)))"

text \<open>\<^verbatim>\<open>v.map(f)\<close> where \<open>expr\<close> is the source text of the receiver.\<close>

definition arrayMap :: "string \<Rightarrow> json \<Rightarrow> (json \<Rightarrow> 'a io) \<Rightarrow> 'a list io" where
  "arrayMap expr v f =
     (case v of
        JArr xs \<Rightarrow> mapIO f xs
      | JNull \<Rightarrow> bind (readProp v ''map'') (\<lambda>_. ret [])
      | JUndefined \<Rightarrow> bind (readProp v ''map'') (\<lambda>_. ret [])
      | _ \<Rightarrow> throw (expr @ ''.map is not a function''))"

definition notInitialized :: string where
  "notInitialized = ''Azure DevOps connection not initialized''"

definition getWorkItemDirect :: "adapter option \<Rightarrow> json \<Rightarrow> string io" where
  "getWorkItemDirect azureConnection workItemId =
     (case azureConnection of
        None \<Rightarrow> throw notInitialized
      | Some conn \<Rightarrow>
          catch
            (bind (getApi conn GetWorkItemTrackingApi) (\<lambda>witApi.
             bind (member ''witApi'' witApi ''getWorkItem'') (\<lambda>_.
             bind (invoke conn (GetWorkItem workItemId)) (\<lambda>workItem.
               if \<not> truthy workItem
               then template [Lit ''Work item '', Sub workItemId, Lit '' not found.'']
               else
                 let fields = orElse (getProp workItem ''fields'') (JObj []);
                     id = getProp workItem ''id'';
                     title = getProp fields ''System.Title'';
                     state = getProp fields ''System.State'';
                     type = getProp fields ''System.WorkItemType'';
                     assignedTo = optGet (getProp fields ''System.AssignedTo'') ''displayName'';
                     iterationPath = getProp fields ''System.IterationPath'';
                     tags = getProp fields ''System.Tags''
                 in template
                      [Lit ''# Work Item '', Sub id, Lit '': '', Sub title, Lit (nl @ nl),
                       Lit ''**Type**: '', Sub type, Lit nl,
                       Lit ''**State**: '', Sub state, Lit nl,
                       Lit ''**Assigned To**: '', Sub (orElse assignedTo (JStr ''Unassigned'')), Lit nl,
                       Lit ''**Iteration**: '', Sub iterationPath, Lit nl,
                       Lit ''**Tags**: '', Sub (orElse tags (JStr ''None'')), Lit nl]))))
            (\<lambda>msg. bind (template [Lit ''Failed to get work item '', Sub workItemId, Lit '': '', Lit msg])
                      throw))"

definition listProjectsDirect :: "adapter option \<Rightarrow> string io" where
  "listProjectsDirect azureConnection =
     (case azureConnection of
        None \<Rightarrow> throw notInitialized
      | Some conn \<Rightarrow>
          catch
            (bind (getApi conn GetCoreApi) (\<lambda>coreApi.
             bind (member ''coreApi'' coreApi ''getProjects'') (\<lambda>_.
             bind (invoke conn GetProjects) (\<lambda>projects.
               if \<not> truthy projects \<or> getProp projects ''length'' = JNum 0 then ret ''No projects found.''
               else
                 bind (arrayMap ''projects'' projects (\<lambda>project.
                         bind (readProp project ''name'') (\<lambda>name.
                           template
                             [Lit ''- **'', Sub name, Lit ''**: '',
                              Sub (orElse (getProp project ''description'') (JStr ''No description'')),
                              Lit '' (ID: '', Sub (getProp project ''id''), Lit '')''])))
                   (\<lambda>lines.
                      template
                        [Lit ''# Projects ('', Sub (getProp projects ''length''), Lit '')'',
                         Lit (nl @ nl), Lit (joinWith nl lines)])))))
            (\<lambda>msg. throw (''Failed to list projects: '' @ msg)))"

definition getProjectDirect :: "adapter option \<Rightarrow> json \<Rightarrow> string io" where
  "getProjectDirect azureConnection projectId =
     (case azureConnection of
        None \<Rightarrow> throw notInitialized
      | Some conn \<Rightarrow>
          catch
            (bind (getApi conn GetCoreApi) (\<lambda>coreApi.
             bind (member ''coreApi'' coreApi ''getProject'') (\<lambda>_.
             bind (invoke conn (GetProject projectId)) (\<lambda>project.
               if \<not> truthy project
               then template [Lit ''Project '', Sub projectId, Lit '' not found.'']
               else
                 template
                   [Lit ''# Project: '', Sub (getProp project ''name''), Lit (nl @ nl),
                    Lit ''**ID**: '', Sub (getProp project ''id''), Lit nl,
                    Lit ''**Description**: '',
                    Sub (orElse (getProp project ''description'') (JStr ''No description'')), Lit nl,
                    Lit ''**State**: '', Sub (getProp project ''state''), Lit nl,
                    Lit ''**Visibility**: '', Sub (getProp project ''visibility''), Lit nl,
                    Lit ''**URL**: '', Sub (getProp project ''url'')]))))
            (\<lambda>msg. bind (template [Lit ''Failed to get project '', Sub projectId, Lit '': '', Lit msg])
                      throw))"

definition patchEntry :: "string \<Rightarrow> json \<Rightarrow> json" where
  "patchEntry path v = JObj [(''op'', JStr ''add''), (''path'', JStr path), (''value'', v)]"

definition createWorkItemDirect ::
  "adapter option \<Rightarrow> json \<Rightarrow> json \<Rightarrow> json \<Rightarrow> json \<Rightarrow> json \<Rightarrow> string io" where
  "createWorkItemDirect azureConnection project type title description assignedTo =
     (case azureConnection of
        None \<Rightarrow> throw notInitialized
      | Some conn \<Rightarrow>
          catch
            (bind (getApi conn GetWorkItemTrackingApi) (\<lambda>witApi.
               let patchDocument =
                     [patchEntry ''/fields/System.Title'' title] @
                     (if truthy description then [patchEntry ''/fields/System.Description'' description] else []) @
                     (if truthy assignedTo then [patchEntry ''/fields/System.AssignedTo'' assignedTo] else [])
               in
               bind (member ''witApi'' witApi ''createWorkItem'') (\<lambda>_.
               bind (invoke conn (CreateWorkItem (JArr patchDocument) project type)) (\<lambda>workItem.
                 if \<not> truthy workItem then throw ''Failed to create work item''
                 else
                   template
                     [Lit ''# Work Item Created: '', Sub (getProp workItem ''id''), Lit (nl @ nl),
                      Lit ''**Title**: '', Sub title, Lit nl,
                      Lit ''**Type**: '', Sub type, Lit nl,
                      Lit ''**Project**: '', Sub project, Lit nl,
                      Lit ''**State**: '', Sub (optGet (getProp workItem ''fields'') ''System.State''), Lit nl,
                      Lit ''**URL**: '',
                      Sub (orElse (optGet (optGet (getProp workItem ''_links'') ''html'') ''href'')
                                  (JStr ''N/A''))]))))
            (\<lambda>msg. throw (''Failed to create work item: '' @ msg)))"

definition queryWorkItemsDirect :: "adapter option \<Rightarrow> json \<Rightarrow> json \<Rightarrow> string io" where
  "queryWorkItemsDirect azureConnection wiql project =
     (case azureConnection of
        None \<Rightarrow> throw notInitialized
      | Some conn \<Rightarrow>
          catch
            (bind (getApi conn GetWorkItemTrackingApi) (\<lambda>witApi.
             bind (member ''witApi'' witApi ''queryByWiql'') (\<lambda>_.
             bind (invoke conn (QueryByWiql (JObj [(''query'', wiql)]))) (\<lambda>queryResult.
             bind (readProp queryResult ''workItems'') (\<lambda>refs.
               if \<not> truthy refs \<or> getProp refs ''length'' = JNum 0
               then ret ''No work items found matching the query.''
               else
                 bind (arrayMap ''queryResult.workItems'' refs (\<lambda>wi. readProp wi ''id'')) (\<lambda>workItemIds.
                 bind (invoke conn (GetWorkItems (JArr workItemIds))) (\<lambda>workItems.
                 bind (arrayMap ''workItems'' workItems (\<lambda>item.
                         bind (readProp item ''fields'') (\<lambda>f.
                           let fields = orElse f (JObj [])
                           in template
                                [Lit ''- **'', Sub (getProp item ''id''), Lit ''**: '',
                                 Sub (getProp fields ''System.Title''), Lit '' ('',
                                 Sub (getProp fields ''System.State''), Lit '')''])))
                   (\<lambda>lines.
                      template
                        [Lit ''# Query Results ('', Sub (getProp workItems ''length''), Lit '' items)'',
                         Lit (nl @ nl), Lit (joinWith nl lines)]))))))))
            (\<lambda>msg. throw (''Failed to query work items: '' @ msg)))"

definition listRepositoriesDirect :: "adapter option \<Rightarrow> json \<Rightarrow> string io" where
  "listRepositoriesDirect azureConnection project =
     (case azureConnection of
        None \<Rightarrow> throw notInitialized
      | Some conn \<Rightarrow>
          catch
            (bind (getApi conn GetGitApi) (\<lambda>gitApi.
             bind (member ''gitApi'' gitApi ''getRepositories'') (\<lambda>_.
             bind (invoke conn (GetRepositories project)) (\<lambda>repositories.
               if \<not> truthy repositories \<or> getProp repositories ''length'' = JNum 0
               then ret ''No repositories found.''
               else
                 bind (arrayMap ''repositories'' repositories (\<lambda>repo.
                         bind (readProp repo ''name'') (\<lambda>name.
                           template
                             [Lit ''- **'', Sub name, Lit ''**: '',
                              Sub (orElse (getProp repo ''defaultBranch'') (JStr ''No default branch'')),
                              Lit '' (ID: '', Sub (getProp repo ''id''), Lit '')''])))
                   (\<lambda>lines.
                      template
                        [Lit ''# Repositories ('', Sub (getProp repositories ''length''), Lit '')'',
                         Lit (nl @ nl), Lit (joinWith nl lines)])))))
            (\<lambda>msg. throw (''Failed to list repositories: '' @ msg)))"

definition getRepositoryDirect :: "adapter option \<Rightarrow> json \<Rightarrow> json \<Rightarrow> string io" where
  "getRepositoryDirect azureConnection repositoryId project =
     (case azureConnection of
        None \<Rightarrow> throw notInitialized
      | Some conn \<Rightarrow>
          catch
            (bind (getApi conn GetGitApi) (\<lambda>gitApi.
             bind (member ''gitApi'' gitApi ''getRepository'') (\<lambda>_.
             bind (invoke conn (GetRepository repositoryId project)) (\<lambda>repository.
               if \<not> truthy repository
               then template [Lit ''Repository '', Sub repositoryId, Lit '' not found.'']
               else
                 template
                   [Lit ''# Repository: '', Sub (getProp repository ''name''), Lit (nl @ nl),
                    Lit ''**ID**: '', Sub (getProp repository ''id''), Lit nl,
                    Lit ''**Default Branch**: '',
                    Sub (orElse (getProp repository ''defaultBranch'') (JStr ''Not set'')), Lit nl,
                    Lit ''**Size**: '', Sub (orElse (getProp repository ''size'') (JStr ''Unknown'')),
                    Lit '' bytes'', Lit nl,
                    Lit ''**URL**: '',
                    Sub (orElse (orElse (getProp repository ''webUrl'') (getProp repository ''remoteUrl''))
                                (JStr ''N/A'')), Lit nl,
                    Lit ''**Project**: '',
                    Sub (orElse (optGet (getProp repository ''project'') ''name'') (JStr ''Unknown''))]))))
            (\<lambda>msg. bind (template [Lit ''Failed to get repository '', Sub repositoryId, Lit '': '', Lit msg])
                      throw))"

text \<open>
  The template of the text the code-search handler answers with; it depends on the
  arguments only.
\<close>

definition searchPlaceholder :: "json \<Rightarrow> json \<Rightarrow> json \<Rightarrow> piece list" where
  "searchPlaceholder searchText project repository =
     [Lit ''Code search functionality requires direct REST API implementation.'', Lit nl,
      Lit ''Search text: '', Lit dq, Sub searchText, Lit dq, Lit nl,
      Lit ''Project: '', Sub (orElse project (JStr ''All projects'')), Lit nl,
      Lit ''Repository: '', Sub (orElse repository (JStr ''All repositories'')), Lit (nl @ nl),
      Lit (''Note: The Azure DevOps Node API doesn'' @ [CHR 0x27] @ ''t expose the Search API directly. ''),
      Lit ''To implement this, you would need to make direct REST API calls to:'', Lit nl,
      Lit ''POST https://almsearch.dev.azure.com/{organization}/{project}/_apis/search/codesearchresults?api-version=7.1'']"

definition searchRepositoryCodeDirect :: "adapter option \<Rightarrow> json \<Rightarrow> json \<Rightarrow> json \<Rightarrow> string io" where
  "searchRepositoryCodeDirect azureConnection searchText project repository =
     (case azureConnection of
        None \<Rightarrow> throw notInitialized
      | Some conn \<Rightarrow>
          catch
            (template (searchPlaceholder searchText project repository))
            (\<lambda>msg. throw (''Failed to search repository code: '' @ msg)))"

section \<open>The JSON-RPC dispatcher behind POST /sse\<close>

text \<open>
  What the handler depends on besides the request body: the connection set up at
  construction time (\<^verbatim>\<open>null\<close> when the organisation URL or the token was missing from
  the environment) and the value of \<^verbatim>\<open>new Date().toISOString()\<close> when the request is
  served.
\<close>

record env =
  azureConnection :: "adapter option"
  isoTime :: string

text \<open>
  The outcome of one request: the HTTP status, the object given to \<^verbatim>\<open>res.json\<close>, and the
  backend calls made on the way.
\<close>

record outcome =
  status :: nat
  body :: json
  calls :: "call list"

definition strProp :: "string \<Rightarrow> string \<Rightarrow> string \<times> json" where
  "strProp name description =
     (name, JObj [(''type'', JStr ''string''), (''description'', JStr description)])"

definition tool :: "string \<Rightarrow> string \<Rightarrow> (string \<times> json) list \<Rightarrow> string list option \<Rightarrow> json" where
  "tool name description properties required =
     JObj [(''name'', JStr name),
           (''description'', JStr description),
           (''inputSchema'',
              JObj ([(''type'', JStr ''object''), (''properties'', JObj properties)] @
                    (case required of
                       None \<Rightarrow> []
                     | Some fs \<Rightarrow> [(''required'', JArr (map JStr fs))])))]"

definition toolDescriptors :: "json list" where
  "toolDescriptors =
     [tool ''get_work_item'' ''Get a work item by ID''
        [(''workItemId'', JObj [(''type'', JStr ''number''), (''description'', JStr ''Work item ID'')])]
        (Some [''workItemId'']),
      tool ''list_projects'' ''List all projects in Azure DevOps'' [] None,
      tool ''get_project'' ''Get details of a specific project''
        [strProp ''projectId'' ''Project ID or name'']
        (Some [''projectId'']),
      tool ''create_work_item'' ''Create a new work item''
        [strProp ''project'' ''Project name or ID'',
         strProp ''type'' ''Work item type (e.g., Task, Bug, User Story)'',
         strProp ''title'' ''Work item title'',
         strProp ''description'' ''Work item description (optional)'',
         strProp ''assignedTo'' ''Assigned to user email (optional)'']
        (Some [''project'', ''type'', ''title'']),
      tool ''query_work_items'' ''Query work items using WIQL''
        [strProp ''wiql'' ''WIQL query string'',
         strProp ''project'' ''Project name or ID (optional)'']
        (Some [''wiql'']),
      tool ''list_repositories'' ''List all repositories''
        [strProp ''project'' ''Project name or ID (optional)'']
        None,
      tool ''get_repository'' ''Get details of a specific repository''
        [strProp ''repositoryId'' ''Repository ID or name'',
         strProp ''project'' ''Project name or ID (optional)'']
        (Some [''repositoryId'']),
      tool ''search_repository_code'' ''Search for code in repositories''
        [strProp ''searchText'' ''Search text'',
         strProp ''project'' ''Project name or ID (optional)'',
         strProp ''repository'' ''Repository name or ID (optional)'']
        (Some [''searchText''])]"

text \<open>
  The \<^verbatim>\<open>switch (toolName)\<close> of the \<^verbatim>\<open>tools/call\<close> branch; its cases compare with
  \<^verbatim>\<open>===\<close>.
\<close>

definition callTool :: "adapter option \<Rightarrow> json \<Rightarrow> json \<Rightarrow> string io" where
  "callTool conn toolName args =
     (if toolName = JStr ''get_work_item'' then
        (if \<not> truthy (getProp args ''workItemId'') then throw ''workItemId is required''
         else getWorkItemDirect conn (getProp args ''workItemId''))
      else if toolName = JStr ''list_projects'' then listProjectsDirect conn
      else if toolName = JStr ''get_project'' then
        (if \<not> truthy (getProp args ''projectId'') then throw ''projectId is required''
         else getProjectDirect conn (getProp args ''projectId''))
      else if toolName = JStr ''create_work_item'' then
        (if \<not> truthy (getProp args ''project'') \<or> \<not> truthy (getProp args ''type'')
            \<or> \<not> truthy (getProp args ''title'')
         then throw ''project, type, and title are required''
         else createWorkItemDirect conn (getProp args ''project'') (getProp args ''type'')
                (getProp args ''title'') (getProp args ''description'') (getProp args ''assignedTo''))
      else if toolName = JStr ''query_work_items'' then
        (if \<not> truthy (getProp args ''wiql'') then throw ''wiql is required''
         else queryWorkItemsDirect conn (getProp args ''wiql'') (getProp args ''project''))
      else if toolName = JStr ''list_repositories'' then
        listRepositoriesDirect conn (getProp args ''project'')
      else if toolName = JStr ''get_repository'' then
        (if \<not> truthy (getProp args ''repositoryId'') then throw ''repositoryId is required''
         else getRepositoryDirect conn (getProp args ''repositoryId'') (getProp args ''project''))
      else if toolName = JStr ''search_repository_code'' then
        (if \<not> truthy (getProp args ''searchText'') then throw ''searchText is required''
         else searchRepositoryCodeDirect conn (getProp args ''searchText'') (getProp args ''project'')
                (getProp args ''repository''))
      else bind (template [Lit ''Tool '', Sub toolName, Lit '' not supported'']) throw)"

definition resultEnvelope :: "json \<Rightarrow> json \<Rightarrow> json" where
  "resultEnvelope rid r = JObj [(''jsonrpc'', JStr ''2.0''), (''id'', rid), (''result'', r)]"

definition errorEnvelope :: "json \<Rightarrow> json \<Rightarrow> json" where
  "errorEnvelope rid e = JObj [(''jsonrpc'', JStr ''2.0''), (''id'', rid), (''error'', e)]"

definition rpcError :: "int \<Rightarrow> string \<Rightarrow> json" where
  "rpcError code message = JObj [(''code'', JNum code), (''message'', JStr message)]"

definition textContent :: "string \<Rightarrow> json" where
  "textContent t = JObj [(''content'', JArr [JObj [(''type'', JStr ''text''), (''text'', JStr t)]])]"

definition toolFailure :: "string \<Rightarrow> json" where
  "toolFailure cause =
     JObj [(''code'', JNum (- 32603)), (''message'', JStr ''Internal error executing tool''),
           (''data'', JStr cause)]"

definition initializeResult :: json where
  "initializeResult =
     JObj [(''protocolVersion'', JStr ''2024-11-05''),
           (''capabilities'',
              JObj [(''tools'', JObj []),
                    (''transport'', JObj [(''name'', JStr ''streamable-https''), (''supported'', JBool True)])]),
           (''serverInfo'',
              JObj [(''name'', JStr ''azure-devops-mcp-simple''),
                    (''version'', JStr ''1.0.0''),
                    (''transport'', JStr ''streamable-https'')])]"

definition helloResult :: json where
  "helloResult =
     JObj [(''serverName'', JStr ''azure-devops-mcp-simple''),
           (''serverVersion'', JStr ''1.0.0''),
           (''transport'', JStr ''streamable-https'')]"

text \<open>
  The \<^verbatim>\<open>catch\<close> of the handler's outer \<^verbatim>\<open>try\<close>: whatever is thrown outside the
  \<^verbatim>\<open>tools/call\<close> branch's own \<^verbatim>\<open>try\<close> ends here.
\<close>

definition internalError :: "json \<Rightarrow> outcome" where
  "internalError mcpRequest =
     \<lparr>status = 500,
      body = errorEnvelope (orElse (optGet mcpRequest ''id'') JNull) (rpcError (- 32603) ''Internal error''),
      calls = []\<rparr>"

text \<open>
  The \<^verbatim>\<open>tools/call\<close> branch. Its first statement logs the tool name, interpolated into the
  format string, together with the arguments as sent; this happens before the branch's own
  \<^verbatim>\<open>try\<close>, so a name that cannot be converted to a string, or a placeholder in the
  name that makes the formatter convert unconvertible arguments, ends in the outer
  \<^verbatim>\<open>catch\<close>. (The format string starts with a pictograph, left out here; it contains
  no percent sign.)
\<close>

definition toolCallLog :: "json \<Rightarrow> string option" where
  "toolCallLog name = render [Lit ''Tool call: '', Sub name, Lit '' with args:'']"

definition toolsCall :: "env \<Rightarrow> json \<Rightarrow> outcome" where
  "toolsCall e mcpRequest =
     (case toolCallLog (optGet (getProp mcpRequest ''params'') ''name'') of
        None \<Rightarrow> internalError mcpRequest
      | Some format \<Rightarrow>
          if logThrows format (optGet (getProp mcpRequest ''params'') ''arguments'')
          then internalError mcpRequest
          else
            let toolName = optGet (getProp mcpRequest ''params'') ''name'';
                args = orElse (optGet (getProp mcpRequest ''params'') ''arguments'') (JObj [])
            in case callTool (azureConnection e) toolName args of
                 (Inr result, cs) \<Rightarrow>
                   \<lparr>status = 200,
                    body = resultEnvelope (getProp mcpRequest ''id'') (textContent result),
                    calls = cs\<rparr>
               | (Inl cause, cs) \<Rightarrow>
                   \<lparr>status = 200,
                    body = errorEnvelope (getProp mcpRequest ''id'') (toolFailure cause),
                    calls = cs\<rparr>)"

text \<open>
  The POST handler. After the three envelope checks it logs the method, interpolated into
  a template literal, and a method that cannot be converted to a string ends in the outer
  \<^verbatim>\<open>catch\<close>. Every property read has a truthy receiver, so nothing else outside the
  \<^verbatim>\<open>tools/call\<close> branch throws on a parsed JSON body.
\<close>

definition postSse :: "env \<Rightarrow> json \<Rightarrow> outcome" where
  "postSse e mcpRequest =
     (if \<not> truthy mcpRequest \<or> \<not> truthy (getProp mcpRequest ''jsonrpc'') then
        \<lparr>status = 400,
         body = errorEnvelope (orElse (optGet mcpRequest ''id'') JNull) (rpcError (- 32600) ''Invalid Request''),
         calls = []\<rparr>
      else if truthy (getProp mcpRequest ''error'') then
        \<lparr>status = 200,
         body = resultEnvelope (getProp mcpRequest ''id'') (JObj [(''acknowledged'', JBool True)]),
         calls = []\<rparr>
      else if \<not> truthy (getProp mcpRequest ''method'') then
        \<lparr>status = 400,
         body = errorEnvelope (orElse (optGet mcpRequest ''id'') JNull) (rpcError (- 32600) ''Missing method''),
         calls = []\<rparr>
      else if jsToString (getProp mcpRequest ''method'') = None then internalError mcpRequest
      else if getProp mcpRequest ''method'' = JStr ''initialize'' then
        \<lparr>status = 200, body = resultEnvelope (getProp mcpRequest ''id'') initializeResult, calls = []\<rparr>
      else if getProp mcpRequest ''method'' = JStr ''tools/list'' then
        \<lparr>status = 200,
         body = resultEnvelope (getProp mcpRequest ''id'') (JObj [(''tools'', JArr toolDescriptors)]),
         calls = []\<rparr>
      else if getProp mcpRequest ''method'' = JStr ''tools/call'' then toolsCall e mcpRequest
      else if getProp mcpRequest ''method'' = JStr ''notifications/initialized'' then
        \<lparr>status = 200, body = resultEnvelope (getProp mcpRequest ''id'') (JObj []), calls = []\<rparr>
      else if getProp mcpRequest ''method'' = JStr ''ping'' then
        \<lparr>status = 200,
         body = resultEnvelope (getProp mcpRequest ''id'') (JObj [(''timestamp'', JStr (isoTime e))]),
         calls = []\<rparr>
      else if getProp mcpRequest ''method'' = JStr ''hello'' then
        \<lparr>status = 200, body = resultEnvelope (getProp mcpRequest ''id'') helloResult, calls = []\<rparr>
      else
        \<lparr>status = 200,
         body = errorEnvelope (getProp mcpRequest ''id'') (rpcError (- 32601) ''Method not found''),
         calls = []\<rparr>)"

section \<open>The event stream behind GET /sse\<close>

text \<open>
  One connection: the session identifier, the response head, the chunks given to
  \<^verbatim>\<open>res.write\<close> so far (oldest first), and the interval timer, \<open>Some t\<close> while it is
  armed with its next firing due at clock value \<open>t\<close> (milliseconds), \<open>None\<close> once
  \<^verbatim>\<open>clearInterval\<close> has run.
\<close>

record sse =
  sessionId :: string
  head :: "nat \<times> (string \<times> string) list"
  written :: "string list"
  timer :: "nat option"

definition heartbeatPeriod :: nat where
  "heartbeatPeriod = 30000"

definition helloMessage :: "string \<Rightarrow> nat \<Rightarrow> json" where
  "helloMessage sid now =
     JObj [(''jsonrpc'', JStr ''2.0''),
           (''method'', JStr ''hello''),
           (''params'',
              JObj [(''sessionId'', JStr sid),
                    (''serverName'', JStr ''azure-devops-mcp-simple''),
                    (''serverVersion'', JStr ''1.0.0'')]),
           (''id'', JStr (''hello-'' @ showNat now))]"

text \<open>
  The GET handler, run to completion: \<open>rnd\<close> is the string
  \<^verbatim>\<open>Math.random().toString(36)\<close>, \<open>now\<close> the value of \<^verbatim>\<open>Date.now()\<close> while it runs.
\<close>

definition sseOpen :: "string \<Rightarrow> nat \<Rightarrow> sse" where
  "sseOpen rnd now =
     (let sid = drop 2 rnd @ ''-'' @ showRadix 36 now
      in \<lparr>sessionId = sid,
          head = (200, [(''Content-Type'', ''text/event-stream''),
                        (''Cache-Control'', ''no-cache, no-store, must-revalidate''),
                        (''Connection'', ''keep-alive''),
                        (''Access-Control-Allow-Origin'', ''*''),
                        (''Access-Control-Allow-Credentials'', ''true'')]),
          written = [''event: endpoint'' @ nl,
                     ''data: /message?sessionId='' @ sid @ nl @ nl,
                     ''event: message'' @ nl,
                     ''data: '' @ stringify (helloMessage sid now) @ nl @ nl],
          timer = Some (now + heartbeatPeriod)\<rparr>)"

definition heartbeatLine :: "nat \<Rightarrow> string" where
  "heartbeatLine t = '': heartbeat '' @ showNat t @ nl @ nl"

text \<open>
  The interval callback, run at clock value \<open>t\<close>; \<open>ok t\<close> tells whether \<^verbatim>\<open>res.write\<close>
  returns at that moment (otherwise it throws and the \<^verbatim>\<open>catch\<close> clears the interval).
  A callback that returns leaves the timer armed for one period later.
\<close>

definition fire :: "(nat \<Rightarrow> bool) \<Rightarrow> nat \<Rightarrow> sse \<Rightarrow> sse" where
  "fire ok t s =
     (if ok t then s\<lparr>written := written s @ [heartbeatLine t], timer := Some (t + heartbeatPeriod)\<rparr>
      else s\<lparr>timer := None\<rparr>)"

text \<open>The \<^verbatim>\<open>close\<close> listener of the request.\<close>

definition onClose :: "sse \<Rightarrow> sse" where
  "onClose s = s\<lparr>timer := None\<rparr>"

text \<open>
  The runtime's timer loop up to clock value \<open>T\<close>: an armed interval fires each time
  it falls due, a cleared one never does.
\<close>

function elapse :: "(nat \<Rightarrow> bool) \<Rightarrow> nat \<Rightarrow> sse \<Rightarrow> sse" where
  "elapse ok T s =
     (case timer s of
        None \<Rightarrow> s
      | Some due \<Rightarrow> if T < due then s else elapse ok T (fire ok due s))"
  by pat_completeness auto
termination
  by (relation "measure (\<lambda>(ok, T, s). case timer s of None \<Rightarrow> 0 | Some due \<Rightarrow> T + heartbeatPeriod - due)")
     (auto simp: fire_def heartbeatPeriod_def)

declare elapse.simps [simp del]

datatype input = Elapse nat | Close

fun run :: "(nat \<Rightarrow> bool) \<Rightarrow> sse \<Rightarrow> input list \<Rightarrow> sse" where
  "run ok s [] = s"
| "run ok s (Elapse T # evs) = run ok (elapse ok T s) evs"
| "run ok s (Close # evs) = run ok (onClose s) evs"

section \<open>Vocabulary of the properties\<close>

text \<open>The string entries of an array.\<close>

fun strings :: "json list \<Rightarrow> string list" where
  "strings [] = []"
| "strings (JStr s # xs) = s # strings xs"
| "strings (x # xs) = strings xs"

text \<open>The fields a tool descriptor declares \<^verbatim>\<open>required\<close> in its input schema.\<close>

definition requiredOf :: "json \<Rightarrow> string list" where
  "requiredOf d =
     (case getProp (getProp d ''inputSchema'') ''required'' of JArr xs \<Rightarrow> strings xs | _ \<Rightarrow> [])"

text \<open>Every pair of a tool name and a field that tool's schema declares required.\<close>

definition requiredPairs :: "(json \<times> string) list" where
  "requiredPairs =
     concat (map (\<lambda>d. map (\<lambda>f. (getProp d ''name'', f)) (requiredOf d)) toolDescriptors)"

text \<open>
  A body that gets past the three envelope checks and is dispatched on its method: a
  truthy \<^verbatim>\<open>jsonrpc\<close>, no truthy \<^verbatim>\<open>error\<close>.
\<close>

definition isRequest :: "json \<Rightarrow> bool" where
  "isRequest r \<longleftrightarrow> truthy (getProp r ''jsonrpc'') \<and> \<not> truthy (getProp r ''error'')"

definition isToolsCall :: "json \<Rightarrow> bool" where
  "isToolsCall r \<longleftrightarrow> isRequest r \<and> getProp r ''method'' = JStr ''tools/call''"

text \<open>The tool name and the arguments the \<^verbatim>\<open>tools/call\<close> branch extracts.\<close>

definition toolNameOf :: "json \<Rightarrow> json" where
  "toolNameOf r = optGet (getProp r ''params'') ''name''"

definition argumentsOf :: "json \<Rightarrow> json" where
  "argumentsOf r = orElse (optGet (getProp r ''params'') ''arguments'') (JObj [])"

text \<open>The message of the error a tool throws when a required argument is falsy.\<close>

definition requiredMessage :: "json \<Rightarrow> string \<Rightarrow> string" where
  "requiredMessage n f =
     (if n = JStr ''create_work_item'' then ''project, type, and title are required''
      else f @ '' is required'')"

text \<open>The method names the dispatcher has a branch for.\<close>

definition knownMethods :: "string list" where
  "knownMethods =
     [''initialize'', ''tools/list'', ''tools/call'', ''notifications/initialized'', ''ping'', ''hello'']"

text \<open>A JSON-RPC request as a client builds it, and a \<^verbatim>\<open>tools/call\<close> among them.\<close>

definition request :: "json \<Rightarrow> string \<Rightarrow> json \<Rightarrow> json" where
  "request rid method params =
     JObj [(''jsonrpc'', JStr ''2.0''), (''id'', rid), (''method'', JStr method), (''params'', params)]"

definition toolCall :: "json \<Rightarrow> string \<Rightarrow> (string \<times> json) list \<Rightarrow> json" where
  "toolCall rid name args =
     request rid ''tools/call'' (JObj [(''name'', JStr name), (''arguments'', JObj args)])"

text \<open>
  The tool names whose log line is harmless: the name converts to a string and the
  format string it is interpolated into has no placeholder.
\<close>

definition logsQuietly :: "json \<Rightarrow> bool" where
  "logsQuietly name =
     (case toolCallLog name of
        None \<Rightarrow> False
      | Some format \<Rightarrow> firstPlaceholder format = None)"

text \<open>
  A server started without credentials, and one whose backend hands out its API objects
  and answers every call on them with \<^verbatim>\<open>null\<close>.
\<close>

definition offline :: env where
  "offline = \<lparr>azureConnection = None, isoTime = ''2024-01-01T00:00:00.000Z''\<rparr>"

definition nullBackend :: adapter where
  "nullBackend = \<lparr>connect = (\<lambda>c. Inr None), respond = (\<lambda>c. Inr JNull)\<rparr>"

definition online :: env where
  "online = \<lparr>azureConnection = Some nullBackend, isoTime = ''2024-01-01T00:00:00.000Z''\<rparr>"


section \<open>Auxiliary facts\<close>

lemma truthy_getProp: "truthy (getProp r k) \<Longrightarrow> truthy r"
  by (cases r) (simp_all split: if_splits)

lemma tool_name: "getProp (tool n d ps rq) ''name'' = JStr n"
  by (simp add: tool_def)

lemma strings_of_JStr: "strings (map JStr fs) = fs"
  by (induction fs) simp_all

lemma tool_required: "requiredOf (tool n d ps rq) = (case rq of None \<Rightarrow> [] | Some fs \<Rightarrow> fs)"
  by (cases rq) (simp_all add: tool_def requiredOf_def strings_of_JStr)

lemma requiredPairs_eq:
  "requiredPairs =
     [(JStr ''get_work_item'', ''workItemId''), (JStr ''get_project'', ''projectId''),
      (JStr ''create_work_item'', ''project''), (JStr ''create_work_item'', ''type''),
      (JStr ''create_work_item'', ''title''), (JStr ''query_work_items'', ''wiql''),
      (JStr ''get_repository'', ''repositoryId''), (JStr ''search_repository_code'', ''searchText'')]"
  by (simp add: requiredPairs_def toolDescriptors_def tool_name tool_required)

lemma requiredPairs_mem:
  "d \<in> set toolDescriptors \<Longrightarrow> f \<in> set (requiredOf d) \<Longrightarrow> (getProp d ''name'', f) \<in> set requiredPairs"
  unfolding requiredPairs_def by auto

lemma requiredPairs_cases:
  assumes "(n, f) \<in> set requiredPairs"
  shows "n = JStr ''get_work_item'' \<and> f = ''workItemId''
      \<or> n = JStr ''get_project'' \<and> f = ''projectId''
      \<or> n = JStr ''create_work_item'' \<and> f = ''project''
      \<or> n = JStr ''create_work_item'' \<and> f = ''type''
      \<or> n = JStr ''create_work_item'' \<and> f = ''title''
      \<or> n = JStr ''query_work_items'' \<and> f = ''wiql''
      \<or> n = JStr ''get_repository'' \<and> f = ''repositoryId''
      \<or> n = JStr ''search_repository_code'' \<and> f = ''searchText''"
  using assms unfolding requiredPairs_eq by simp

lemma callTool_required:
  assumes "(n, f) \<in> set requiredPairs" and "\<not> truthy (getProp args f)"
  shows "callTool conn n args = throw (requiredMessage n f)"
  using requiredPairs_cases [OF assms(1)] assms(2)
  by (elim disjE conjE) (simp_all add: callTool_def requiredMessage_def)

lemma requiredMessage_names_field:
  assumes "(n, f) \<in> set requiredPairs"
  shows "sublist f (requiredMessage n f)"
proof (cases "n = JStr ''create_work_item''")
  case False
  then show ?thesis by (simp add: requiredMessage_def)
next
  case True
  have p: "sublist ''project'' ''project, type, and title are required''"
    using sublist_appendI [of "''project''" "[]" "'', type, and title are required''"] by simp
  have t: "sublist ''type'' ''project, type, and title are required''"
    using sublist_appendI [of "''type''" "''project, ''" "'', and title are required''"] by simp
  have i: "sublist ''title'' ''project, type, and title are required''"
    using sublist_appendI [of "''title''" "''project, type, and ''" "'' are required''"] by simp
  from requiredPairs_cases [OF assms] True
  have "f = ''project'' \<or> f = ''type'' \<or> f = ''title''" by simp
  with True p t i show ?thesis
    by (elim disjE) (simp_all add: requiredMessage_def)
qed

lemma postSse_toolsCall: "isToolsCall r \<Longrightarrow> postSse e r = toolsCall e r"
  using truthy_getProp [of r "''jsonrpc''"]
  by (simp add: isToolsCall_def isRequest_def postSse_def)

lemma requiredPairs_quiet:
  assumes "(n, f) \<in> set requiredPairs"
  shows "logsQuietly n"
  using requiredPairs_cases [OF assms]
  by (elim disjE conjE) (simp_all add: logsQuietly_def toolCallLog_def)

lemma toolsCall_quiet:
  assumes "logsQuietly (toolNameOf r)"
  shows "toolsCall e r =
           (case callTool (azureConnection e) (toolNameOf r) (argumentsOf r) of
              (Inr result, cs) \<Rightarrow>
                \<lparr>status = 200, body = resultEnvelope (getProp r ''id'') (textContent result), calls = cs\<rparr>
            | (Inl cause, cs) \<Rightarrow>
                \<lparr>status = 200, body = errorEnvelope (getProp r ''id'') (toolFailure cause), calls = cs\<rparr>)"
  using assms
  by (simp add: toolsCall_def logsQuietly_def logThrows_def toolNameOf_def argumentsOf_def
      split: option.splits)

lemma toolsCall_throw:
  "logsQuietly (toolNameOf r) \<Longrightarrow>
   callTool (azureConnection e) (toolNameOf r) (argumentsOf r) = throw cause \<Longrightarrow>
   toolsCall e r = \<lparr>status = 200, body = errorEnvelope (getProp r ''id'') (toolFailure cause), calls = []\<rparr>"
  by (simp add: toolsCall_quiet throw_def)

lemma toolsCall_ret:
  "logsQuietly (toolNameOf r) \<Longrightarrow>
   callTool (azureConnection e) (toolNameOf r) (argumentsOf r) = ret t \<Longrightarrow>
   toolsCall e r = \<lparr>status = 200, body = resultEnvelope (getProp r ''id'') (textContent t), calls = []\<rparr>"
  by (simp add: toolsCall_quiet ret_def)

lemma request_props:
  "getProp (request rid m ps) ''jsonrpc'' = JStr ''2.0''"
  "getProp (request rid m ps) ''id'' = rid"
  "getProp (request rid m ps) ''method'' = JStr m"
  "getProp (request rid m ps) ''params'' = ps"
  "getProp (request rid m ps) ''error'' = JUndefined"
  by (simp_all add: request_def)

lemma toolCall_props:
  "isToolsCall (toolCall rid n args)"
  "toolNameOf (toolCall rid n args) = JStr n"
  "argumentsOf (toolCall rid n args) = JObj args"
  "getProp (toolCall rid n args) ''id'' = rid"
  by (simp_all add: toolCall_def isToolsCall_def isRequest_def toolNameOf_def argumentsOf_def
      request_props optGet_def orElse_def)


section \<open>Required arguments of a tool call\<close>

text \<open>
  C1, as stated: a \<^verbatim>\<open>tools/call\<close> that omits a required argument is answered with an error
  of code -32603 whose \<^verbatim>\<open>message\<close> identifies the missing field. For \<^verbatim>\<open>get_work_item\<close>
  called without \<^verbatim>\<open>workItemId\<close> the message of the error object is the fixed text
  \<^verbatim>\<open>Internal error executing tool\<close>, which does not mention the field.
\<close>

theorem missing_argument_message_counterexample:
  "getProp (getProp (body (postSse offline (toolCall (JNum 1) ''get_work_item'' []))) ''error'') ''message''
     = JStr ''Internal error executing tool''
   \<and> \<not> sublist ''workItemId'' ''Internal error executing tool''"
proof
  have "callTool (azureConnection offline) (toolNameOf (toolCall (JNum 1) ''get_work_item'' []))
          (argumentsOf (toolCall (JNum 1) ''get_work_item'' [])) = throw ''workItemId is required''"
    by (simp add: toolCall_props callTool_def)
  moreover have "logsQuietly (toolNameOf (toolCall (JNum 1) ''get_work_item'' []))"
    by (simp add: toolCall_props logsQuietly_def toolCallLog_def)
  ultimately show "getProp (getProp (body (postSse offline (toolCall (JNum 1) ''get_work_item'' []))) ''error'') ''message''
     = JStr ''Internal error executing tool''"
    by (simp add: postSse_toolsCall toolCall_props toolsCall_throw errorEnvelope_def toolFailure_def)
next
  show "\<not> sublist ''workItemId'' ''Internal error executing tool''"
    by (simp add: sublist_Cons_right)
qed

text \<open>
  C1, amended: for every \<^verbatim>\<open>tools/call\<close> that names a tool of the registry and omits an
  argument that tool's input schema declares required, the answer is HTTP 200 with a
  JSON-RPC error of code -32603 and message \<^verbatim>\<open>Internal error executing tool\<close>, whose
  \<^verbatim>\<open>data\<close> names the missing field, and no backend call is made.
\<close>

theorem missing_required_argument_rejected:
  assumes "isToolsCall r"
    and "d \<in> set toolDescriptors"
    and "toolNameOf r = getProp d ''name''"
    and "f \<in> set (requiredOf d)"
    and "getProp (argumentsOf r) f = JUndefined"
  shows "\<exists>cause. sublist f cause \<and>
           postSse e r =
             \<lparr>status = 200,
              body = errorEnvelope (getProp r ''id'')
                       (JObj [(''code'', JNum (- 32603)),
                              (''message'', JStr ''Internal error executing tool''),
                              (''data'', JStr cause)]),
              calls = []\<rparr>"
proof -
  have mem: "(toolNameOf r, f) \<in> set requiredPairs"
    using requiredPairs_mem [OF assms(2,4)] assms(3) by simp
  have "\<not> truthy (getProp (argumentsOf r) f)"
    using assms(5) by simp
  then have "callTool (azureConnection e) (toolNameOf r) (argumentsOf r)
               = throw (requiredMessage (toolNameOf r) f)"
    by (rule callTool_required [OF mem])
  then have "postSse e r =
      \<lparr>status = 200,
       body = errorEnvelope (getProp r ''id'') (toolFailure (requiredMessage (toolNameOf r) f)),
       calls = []\<rparr>"
    using assms(1) requiredPairs_quiet [OF mem] by (simp add: postSse_toolsCall toolsCall_throw)
  with requiredMessage_names_field [OF mem] show ?thesis
    unfolding toolFailure_def by blast
qed

lemma create_work_item_descriptor:
  "toolDescriptors ! 3 \<in> set toolDescriptors"
  "getProp (toolDescriptors ! 3) ''name'' = JStr ''create_work_item''"
  "requiredOf (toolDescriptors ! 3) = [''project'', ''type'', ''title'']"
  by (simp_all add: toolDescriptors_def tool_name tool_required)

theorem missing_required_argument_rejected_witness:
  "isToolsCall (toolCall (JStr ''a'') ''create_work_item'' [(''project'', JStr ''P''), (''title'', JStr ''T'')])
   \<and> toolDescriptors ! 3 \<in> set toolDescriptors
   \<and> toolNameOf (toolCall (JStr ''a'') ''create_work_item'' [(''project'', JStr ''P''), (''title'', JStr ''T'')])
       = getProp (toolDescriptors ! 3) ''name''
   \<and> ''type'' \<in> set (requiredOf (toolDescriptors ! 3))
   \<and> getProp (argumentsOf (toolCall (JStr ''a'') ''create_work_item''
                 [(''project'', JStr ''P''), (''title'', JStr ''T'')])) ''type'' = JUndefined
   \<and> (\<exists>cause. sublist ''type'' cause \<and>
        postSse online (toolCall (JStr ''a'') ''create_work_item'' [(''project'', JStr ''P''), (''title'', JStr ''T'')]) =
          \<lparr>status = 200,
           body = errorEnvelope (JStr ''a'')
                    (JObj [(''code'', JNum (- 32603)),
                           (''message'', JStr ''Internal error executing tool''),
                           (''data'', JStr cause)]),
           calls = []\<rparr>)"
proof -
  let ?r = "toolCall (JStr ''a'') ''create_work_item'' [(''project'', JStr ''P''), (''title'', JStr ''T'')]"
  have h1: "isToolsCall ?r" by (simp add: toolCall_props)
  have h2: "toolDescriptors ! 3 \<in> set toolDescriptors" by (rule create_work_item_descriptor)
  have h3: "toolNameOf ?r = getProp (toolDescriptors ! 3) ''name''"
    by (simp add: toolCall_props create_work_item_descriptor)
  have h4: "''type'' \<in> set (requiredOf (toolDescriptors ! 3))"
    by (simp add: create_work_item_descriptor)
  have h5: "getProp (argumentsOf ?r) ''type'' = JUndefined"
    by (simp add: toolCall_props)
  from missing_required_argument_rejected [OF h1 h2 h3 h4 h5, of online] h1 h2 h3 h4 h5
  show ?thesis by (simp add: toolCall_props)
qed


text \<open>
  C10: the required-argument checks test truthiness, not presence. A \<^verbatim>\<open>tools/call\<close> whose
  arguments carry a required field with a falsy value (\<^verbatim>\<open>0\<close>, the empty string, \<^verbatim>\<open>false\<close>
  or \<^verbatim>\<open>null\<close>) is answered like one that omits the field: the -32603 error whose
  \<^verbatim>\<open>data\<close> says the field is required, without any backend call. This holds for
  every required field of every tool, among them \<^verbatim>\<open>workItemId\<close> of \<^verbatim>\<open>get_work_item\<close>,
  \<^verbatim>\<open>wiql\<close>, \<^verbatim>\<open>title\<close>, \<^verbatim>\<open>projectId\<close>, \<^verbatim>\<open>repositoryId\<close> and \<^verbatim>\<open>searchText\<close>.
\<close>

theorem falsy_required_argument_rejected:
  assumes "isToolsCall r"
    and "(toolNameOf r, f) \<in> set requiredPairs"
    and "argumentsOf r = JObj args"
    and "map_of args f = Some v"
    and "v = JNum 0 \<or> v = JStr [] \<or> v = JBool False \<or> v = JNull"
  shows "postSse e r =
           \<lparr>status = 200,
            body = errorEnvelope (getProp r ''id'')
                     (JObj [(''code'', JNum (- 32603)),
                            (''message'', JStr ''Internal error executing tool''),
                            (''data'', JStr (requiredMessage (toolNameOf r) f))]),
            calls = []\<rparr>"
proof -
  from assms(5) have "\<not> truthy v" by (elim disjE) simp_all
  with assms(3,4) have "\<not> truthy (getProp (argumentsOf r) f)" by simp
  then have "callTool (azureConnection e) (toolNameOf r) (argumentsOf r)
               = throw (requiredMessage (toolNameOf r) f)"
    by (rule callTool_required [OF assms(2)])
  then show ?thesis
    using assms(1) requiredPairs_quiet [OF assms(2)]
    by (simp add: postSse_toolsCall toolsCall_throw toolFailure_def)
qed

theorem falsy_required_argument_rejected_witness:
  "isToolsCall (toolCall (JNum 7) ''get_work_item'' [(''workItemId'', JNum 0)])
   \<and> (toolNameOf (toolCall (JNum 7) ''get_work_item'' [(''workItemId'', JNum 0)]), ''workItemId'')
        \<in> set requiredPairs
   \<and> argumentsOf (toolCall (JNum 7) ''get_work_item'' [(''workItemId'', JNum 0)])
        = JObj [(''workItemId'', JNum 0)]
   \<and> map_of [(''workItemId'', JNum 0)] ''workItemId'' = Some (JNum 0)
   \<and> postSse online (toolCall (JNum 7) ''get_work_item'' [(''workItemId'', JNum 0)]) =
        \<lparr>status = 200,
         body = errorEnvelope (JNum 7)
                  (JObj [(''code'', JNum (- 32603)),
                         (''message'', JStr ''Internal error executing tool''),
                         (''data'', JStr ''workItemId is required'')]),
         calls = []\<rparr>"
proof -
  let ?r = "toolCall (JNum 7) ''get_work_item'' [(''workItemId'', JNum 0)]"
  have h1: "isToolsCall ?r" by (simp add: toolCall_props)
  have h2: "(toolNameOf ?r, ''workItemId'') \<in> set requiredPairs"
    by (simp add: toolCall_props requiredPairs_eq)
  have h3: "argumentsOf ?r = JObj [(''workItemId'', JNum 0)]" by (simp add: toolCall_props)
  have h4: "map_of [(''workItemId'', JNum 0)] ''workItemId'' = Some (JNum 0)" by simp
  have h5: "JNum 0 = JNum 0 \<or> JNum 0 = JStr [] \<or> JNum 0 = JBool False \<or> JNum 0 = JNull" by simp
  from falsy_required_argument_rejected [OF h1 h2 h3 h4 h5, of online] h1 h2 h3 h4
  show ?thesis by (simp add: toolCall_props requiredMessage_def)
qed


section \<open>The envelope of a response\<close>

lemma toolsCall_ok_echoes_id:
  "status (toolsCall e r) = 200 \<Longrightarrow> getProp (body (toolsCall e r)) ''id'' = getProp r ''id''"
proof (cases "toolCallLog (optGet (getProp r ''params'') ''name'')")
  case None
  then show "status (toolsCall e r) = 200 \<Longrightarrow> ?thesis"
    by (simp add: toolsCall_def internalError_def)
next
  case (Some format)
  show "status (toolsCall e r) = 200 \<Longrightarrow> ?thesis"
  proof (cases "logThrows format (optGet (getProp r ''params'') ''arguments'')")
    case True
    with Some show "status (toolsCall e r) = 200 \<Longrightarrow> ?thesis"
      by (simp add: toolsCall_def internalError_def)
  next
    case False
    with Some show ?thesis
      by (simp add: toolsCall_def resultEnvelope_def errorEnvelope_def split: prod.splits sum.splits)
  qed
qed

lemma postSse_ok_echoes_id:
  assumes "status (postSse e r) = 200"
  shows "getProp (body (postSse e r)) ''id'' = getProp r ''id''"
proof (cases "getProp r ''method'' = JStr ''tools/call''")
  case True
  show ?thesis
  proof (cases "isRequest r")
    case True
    with \<open>getProp r ''method'' = JStr ''tools/call''\<close> have "postSse e r = toolsCall e r"
      by (simp add: postSse_toolsCall isToolsCall_def)
    with assms toolsCall_ok_echoes_id [of e r] show ?thesis by simp
  next
    case False
    with assms show ?thesis
      by (simp add: postSse_def isRequest_def resultEnvelope_def split: if_splits)
  qed
next
  case False
  with assms show ?thesis
    by (simp add: postSse_def internalError_def resultEnvelope_def errorEnvelope_def split: if_splits)
qed

text \<open>
  C2: the response's \<^verbatim>\<open>id\<close> echoes the request's \<^verbatim>\<open>id\<close> on success and error envelopes
  alike. Every branch answered with status 200 copies \<^verbatim>\<open>mcpRequest.id\<close> (lemma
  \<open>postSse_ok_echoes_id\<close>), but the two -32600 rejections answer with
  \<^verbatim>\<open>mcpRequest?.id || null\<close>: a request with the valid id \<^verbatim>\<open>0\<close> that lacks its
  method, or its \<^verbatim>\<open>jsonrpc\<close> member, is answered with the id \<^verbatim>\<open>null\<close>.
\<close>

theorem invalid_request_drops_zero_id:
  "postSse e (JObj [(''jsonrpc'', JStr ''2.0''), (''id'', JNum 0)]) =
     \<lparr>status = 400,
      body = JObj [(''jsonrpc'', JStr ''2.0''), (''id'', JNull),
                   (''error'', JObj [(''code'', JNum (- 32600)), (''message'', JStr ''Missing method'')])],
      calls = []\<rparr>
   \<and> postSse e (JObj [(''id'', JNum 0), (''method'', JStr ''ping'')]) =
     \<lparr>status = 400,
      body = JObj [(''jsonrpc'', JStr ''2.0''), (''id'', JNull),
                   (''error'', JObj [(''code'', JNum (- 32600)), (''message'', JStr ''Invalid Request'')])],
      calls = []\<rparr>"
  by (simp add: postSse_def errorEnvelope_def rpcError_def orElse_def optGet_def)

theorem invalid_request_drops_zero_id_witness:
  "getProp (body (postSse offline (JObj [(''jsonrpc'', JStr ''2.0''), (''id'', JNum 0)]))) ''id'' = JNull
   \<and> getProp (JObj [(''jsonrpc'', JStr ''2.0''), (''id'', JNum 0)]) ''id'' = JNum 0
   \<and> getProp (body (postSse offline (JObj [(''id'', JNum 0), (''method'', JStr ''ping'')]))) ''id'' = JNull
   \<and> getProp (JObj [(''id'', JNum 0), (''method'', JStr ''ping'')]) ''id'' = JNum 0"
  using invalid_request_drops_zero_id [of offline] by simp


text \<open>
  C4: every envelope the POST handler answers with carries exactly one of \<^verbatim>\<open>result\<close> and
  \<^verbatim>\<open>error\<close>; the answer to a \<^verbatim>\<open>tools/call\<close> is either a result whose content is one text
  block or one error object of code -32603, be it the tool failure with its cause or the
  plain internal error.
\<close>

theorem exactly_one_of_result_error:
  "(hasField (body (postSse e r)) ''result'' \<longleftrightarrow> \<not> hasField (body (postSse e r)) ''error'')
   \<and> (isToolsCall r \<longrightarrow>
        (\<exists>t. body (postSse e r) =
               JObj [(''jsonrpc'', JStr ''2.0''), (''id'', getProp r ''id''),
                     (''result'', JObj [(''content'', JArr [JObj [(''type'', JStr ''text''), (''text'', JStr t)]])])])
        \<or> (\<exists>cause. body (postSse e r) =
               JObj [(''jsonrpc'', JStr ''2.0''), (''id'', getProp r ''id''),
                     (''error'', JObj [(''code'', JNum (- 32603)),
                                       (''message'', JStr ''Internal error executing tool''),
                                       (''data'', JStr cause)])])
        \<or> body (postSse e r) =
               JObj [(''jsonrpc'', JStr ''2.0''), (''id'', orElse (getProp r ''id'') JNull),
                     (''error'', JObj [(''code'', JNum (- 32603)), (''message'', JStr ''Internal error'')])])"
proof (intro conjI impI)
  show "hasField (body (postSse e r)) ''result'' \<longleftrightarrow> \<not> hasField (body (postSse e r)) ''error''"
    by (simp add: postSse_def toolsCall_def internalError_def hasField_def resultEnvelope_def
        errorEnvelope_def textContent_def toolFailure_def rpcError_def initializeResult_def
        helloResult_def split: prod.splits sum.splits option.splits)
next
  assume tc: "isToolsCall r"
  then have eq: "postSse e r = toolsCall e r" by (rule postSse_toolsCall)
  from tc have "truthy r" using truthy_getProp [of r "''jsonrpc''"]
    by (simp add: isToolsCall_def isRequest_def)
  then have ie: "body (internalError r) =
      JObj [(''jsonrpc'', JStr ''2.0''), (''id'', orElse (getProp r ''id'') JNull),
            (''error'', JObj [(''code'', JNum (- 32603)), (''message'', JStr ''Internal error'')])]"
    by (cases r) (simp_all add: internalError_def errorEnvelope_def rpcError_def optGet_def)
  obtain out cs where c: "callTool (azureConnection e)
      (optGet (getProp r ''params'') ''name'')
      (orElse (optGet (getProp r ''params'') ''arguments'') (JObj [])) = (out, cs)"
    by (cases "callTool (azureConnection e) (optGet (getProp r ''params'') ''name'')
                 (orElse (optGet (getProp r ''params'') ''arguments'') (JObj []))")
  show "(\<exists>t. body (postSse e r) =
               JObj [(''jsonrpc'', JStr ''2.0''), (''id'', getProp r ''id''),
                     (''result'', JObj [(''content'', JArr [JObj [(''type'', JStr ''text''), (''text'', JStr t)]])])])
        \<or> (\<exists>cause. body (postSse e r) =
               JObj [(''jsonrpc'', JStr ''2.0''), (''id'', getProp r ''id''),
                     (''error'', JObj [(''code'', JNum (- 32603)),
                                       (''message'', JStr ''Internal error executing tool''),
                                       (''data'', JStr cause)])])
        \<or> body (postSse e r) =
               JObj [(''jsonrpc'', JStr ''2.0''), (''id'', orElse (getProp r ''id'') JNull),
                     (''error'', JObj [(''code'', JNum (- 32603)), (''message'', JStr ''Internal error'')])]"
  proof (cases out)
    case (Inl cause)
    with c eq ie show ?thesis
      by (simp add: toolsCall_def errorEnvelope_def toolFailure_def split: option.splits)
  next
    case (Inr t)
    with c eq ie show ?thesis
      by (simp add: toolsCall_def resultEnvelope_def textContent_def split: option.splits)
  qed
qed

theorem exactly_one_of_result_error_witness:
  "isToolsCall (toolCall (JNum 5) ''list_projects'' [])
   \<and> hasField (body (postSse online (toolCall (JNum 5) ''list_projects'' []))) ''result''
   \<and> \<not> hasField (body (postSse online (toolCall (JNum 5) ''list_projects'' []))) ''error''
   \<and> body (postSse online (toolCall (JNum 5) ''list_projects'' [])) =
       JObj [(''jsonrpc'', JStr ''2.0''), (''id'', JNum 5),
             (''result'', JObj [(''content'', JArr [JObj [(''type'', JStr ''text''),
                                                          (''text'', JStr ''No projects found.'')]])])]"
proof -
  let ?r = "toolCall (JNum 5) ''list_projects'' []"
  have h: "isToolsCall ?r" by (simp add: toolCall_props)
  have q: "logsQuietly (toolNameOf ?r)" by (simp add: toolCall_props logsQuietly_def toolCallLog_def)
  have "callTool (azureConnection online) (toolNameOf ?r) (argumentsOf ?r)
          = (Inr ''No projects found.'', [GetCoreApi, GetProjects])"
    by (simp add: toolCall_props online_def nullBackend_def callTool_def listProjectsDirect_def
        catch_def bind_def getApi_def member_def invoke_def ret_def)
  then have b: "body (postSse online ?r) =
       JObj [(''jsonrpc'', JStr ''2.0''), (''id'', JNum 5),
             (''result'', JObj [(''content'', JArr [JObj [(''type'', JStr ''text''),
                                                          (''text'', JStr ''No projects found.'')]])])]"
    using h q by (simp add: postSse_toolsCall toolsCall_quiet toolCall_props
        resultEnvelope_def textContent_def)
  from exactly_one_of_result_error [of online ?r] h b
  show ?thesis by (simp add: hasField_def)
qed


section \<open>The order of the envelope checks\<close>

text \<open>
  C5, as stated: every body that passes the \<^verbatim>\<open>jsonrpc\<close> check and carries an \<^verbatim>\<open>error\<close>
  field is acknowledged without dispatching on its method. A body carrying
  \<^verbatim>\<open>"error": null\<close> passes the \<^verbatim>\<open>jsonrpc\<close> check, is not acknowledged, and is dispatched on
  its method: here \<^verbatim>\<open>ping\<close> answers with the timestamp.
\<close>

theorem null_error_member_counterexample:
  "map_of [(''jsonrpc'', JStr ''2.0''), (''id'', JNum 1), (''error'', JNull), (''method'', JStr ''ping'')]
     ''error'' = Some JNull
   \<and> postSse offline
        (JObj [(''jsonrpc'', JStr ''2.0''), (''id'', JNum 1), (''error'', JNull), (''method'', JStr ''ping'')]) =
       \<lparr>status = 200,
        body = JObj [(''jsonrpc'', JStr ''2.0''), (''id'', JNum 1),
                     (''result'', JObj [(''timestamp'', JStr ''2024-01-01T00:00:00.000Z'')])],
        calls = []\<rparr>"
  by (simp add: postSse_def resultEnvelope_def offline_def)

text \<open>
  C5, amended: every body with a truthy \<^verbatim>\<open>jsonrpc\<close> member and a truthy \<^verbatim>\<open>error\<close> member
  (any object, a non-empty string, a non-zero number or \<^verbatim>\<open>true\<close>) is answered with
  \<^verbatim>\<open>{result: {acknowledged: true}}\<close> under the peer's id, whatever its method is and
  also when it has none, and no backend call is made; a body with a truthy \<^verbatim>\<open>error\<close>
  member but without a truthy \<^verbatim>\<open>jsonrpc\<close> is rejected with -32600 first.
\<close>

theorem peer_error_acknowledged:
  "(truthy (getProp r ''jsonrpc'') \<and> truthy (getProp r ''error'') \<longrightarrow>
      postSse e r =
        \<lparr>status = 200,
         body = JObj [(''jsonrpc'', JStr ''2.0''), (''id'', getProp r ''id''),
                      (''result'', JObj [(''acknowledged'', JBool True)])],
         calls = []\<rparr>)
   \<and> (\<not> truthy (getProp r ''jsonrpc'') \<and> truthy (getProp r ''error'') \<longrightarrow>
      status (postSse e r) = 400
      \<and> getProp (body (postSse e r)) ''error'' = rpcError (- 32600) ''Invalid Request'')"
proof (intro conjI impI)
  assume a: "truthy (getProp r ''jsonrpc'') \<and> truthy (getProp r ''error'')"
  then have "truthy r" using truthy_getProp [of r "''jsonrpc''"] by simp
  with a show "postSse e r =
        \<lparr>status = 200,
         body = JObj [(''jsonrpc'', JStr ''2.0''), (''id'', getProp r ''id''),
                      (''result'', JObj [(''acknowledged'', JBool True)])],
         calls = []\<rparr>"
    by (simp add: postSse_def resultEnvelope_def)
next
  assume a: "\<not> truthy (getProp r ''jsonrpc'') \<and> truthy (getProp r ''error'')"
  then show "status (postSse e r) = 400" by (simp add: postSse_def)
  from a show "getProp (body (postSse e r)) ''error'' = rpcError (- 32600) ''Invalid Request''"
    by (simp add: postSse_def errorEnvelope_def)
qed

theorem peer_error_acknowledged_witness:
  "truthy (getProp (JObj [(''jsonrpc'', JStr ''2.0''), (''id'', JStr ''x''),
                           (''error'', JObj [(''code'', JNum (- 32000))]), (''method'', JStr ''tools/call'')])
             ''jsonrpc'')
   \<and> truthy (getProp (JObj [(''jsonrpc'', JStr ''2.0''), (''id'', JStr ''x''),
                           (''error'', JObj [(''code'', JNum (- 32000))]), (''method'', JStr ''tools/call'')])
             ''error'')
   \<and> postSse online (JObj [(''jsonrpc'', JStr ''2.0''), (''id'', JStr ''x''),
                         (''error'', JObj [(''code'', JNum (- 32000))]), (''method'', JStr ''tools/call'')]) =
        \<lparr>status = 200,
         body = JObj [(''jsonrpc'', JStr ''2.0''), (''id'', JStr ''x''),
                      (''result'', JObj [(''acknowledged'', JBool True)])],
         calls = []\<rparr>
   \<and> \<not> truthy (getProp (JObj [(''id'', JStr ''y''), (''error'', JStr ''failed'')]) ''jsonrpc'')
   \<and> truthy (getProp (JObj [(''id'', JStr ''y''), (''error'', JStr ''failed'')]) ''error'')
   \<and> status (postSse online (JObj [(''id'', JStr ''y''), (''error'', JStr ''failed'')])) = 400"
proof -
  let ?a = "JObj [(''jsonrpc'', JStr ''2.0''), (''id'', JStr ''x''),
                  (''error'', JObj [(''code'', JNum (- 32000))]), (''method'', JStr ''tools/call'')]"
  let ?b = "JObj [(''id'', JStr ''y''), (''error'', JStr ''failed'')]"
  have ha: "truthy (getProp ?a ''jsonrpc'')" "truthy (getProp ?a ''error'')" by simp_all
  have hb: "\<not> truthy (getProp ?b ''jsonrpc'')" "truthy (getProp ?b ''error'')" by simp_all
  from peer_error_acknowledged [where r = ?a and e = online]
       peer_error_acknowledged [where r = ?b and e = online] ha hb
  show ?thesis by simp
qed


text \<open>
  C3, as stated: a body that lacks \<^verbatim>\<open>method\<close> yields code -32600 with status 400. A
  body with \<^verbatim>\<open>jsonrpc\<close> and an \<^verbatim>\<open>error\<close> member lacks \<^verbatim>\<open>method\<close> and is acknowledged
  with status 200 and a result instead, because the acknowledgment check comes first.
\<close>

theorem missing_method_with_error_counterexample:
  "getProp (JObj [(''jsonrpc'', JStr ''2.0''), (''id'', JNum 1),
                  (''error'', JObj [(''code'', JNum 1), (''message'', JStr ''oops'')])]) ''method'' = JUndefined
   \<and> postSse offline (JObj [(''jsonrpc'', JStr ''2.0''), (''id'', JNum 1),
                            (''error'', JObj [(''code'', JNum 1), (''message'', JStr ''oops'')])]) =
       \<lparr>status = 200,
        body = JObj [(''jsonrpc'', JStr ''2.0''), (''id'', JNum 1),
                     (''result'', JObj [(''acknowledged'', JBool True)])],
        calls = []\<rparr>"
  by (simp add: postSse_def resultEnvelope_def)

text \<open>
  C3, amended: a body that is absent or has no \<^verbatim>\<open>jsonrpc\<close> member is answered with status
  400 and code -32600. Of the bodies with a truthy \<^verbatim>\<open>jsonrpc\<close> and no truthy \<^verbatim>\<open>error\<close>
  member, one without \<^verbatim>\<open>method\<close> is answered with status 400 and code -32600, and one
  whose \<^verbatim>\<open>method\<close> is a non-empty string outside the six known names is answered with
  status 200 and code -32601.
\<close>

theorem method_not_found_and_invalid_request:
  "(r = JUndefined \<or> getProp r ''jsonrpc'' = JUndefined \<longrightarrow>
      status (postSse e r) = 400
      \<and> getProp (body (postSse e r)) ''error'' = rpcError (- 32600) ''Invalid Request'')
   \<and> (isRequest r \<and> getProp r ''method'' = JUndefined \<longrightarrow>
      status (postSse e r) = 400
      \<and> getProp (body (postSse e r)) ''error'' = rpcError (- 32600) ''Missing method'')
   \<and> (isRequest r \<and> getProp r ''method'' = JStr m \<and> m \<noteq> [] \<and> m \<notin> set knownMethods \<longrightarrow>
      status (postSse e r) = 200
      \<and> getProp (body (postSse e r)) ''error'' = rpcError (- 32601) ''Method not found'')"
proof (intro conjI impI)
  assume "r = JUndefined \<or> getProp r ''jsonrpc'' = JUndefined"
  then have a: "\<not> truthy r \<or> \<not> truthy (getProp r ''jsonrpc'')" by (elim disjE) simp_all
  then show "status (postSse e r) = 400" by (simp add: postSse_def)
  from a show "getProp (body (postSse e r)) ''error'' = rpcError (- 32600) ''Invalid Request''"
    by (simp add: postSse_def errorEnvelope_def)
next
  assume a: "isRequest r \<and> getProp r ''method'' = JUndefined"
  then have t: "truthy r" using truthy_getProp [of r "''jsonrpc''"] by (simp add: isRequest_def)
  from a t show "status (postSse e r) = 400" by (simp add: postSse_def isRequest_def)
  from a t show "getProp (body (postSse e r)) ''error'' = rpcError (- 32600) ''Missing method''"
    by (simp add: postSse_def isRequest_def errorEnvelope_def)
next
  assume a: "isRequest r \<and> getProp r ''method'' = JStr m \<and> m \<noteq> [] \<and> m \<notin> set knownMethods"
  then have t: "truthy r" using truthy_getProp [of r "''jsonrpc''"] by (simp add: isRequest_def)
  from a t show "status (postSse e r) = 200"
    by (simp add: postSse_def isRequest_def knownMethods_def)
  from a t show "getProp (body (postSse e r)) ''error'' = rpcError (- 32601) ''Method not found''"
    by (simp add: postSse_def isRequest_def knownMethods_def errorEnvelope_def)
qed

theorem method_not_found_and_invalid_request_witness:
  "getProp (JObj [(''id'', JNum 1), (''method'', JStr ''ping'')]) ''jsonrpc'' = JUndefined
   \<and> status (postSse offline (JObj [(''id'', JNum 1), (''method'', JStr ''ping'')])) = 400
   \<and> getProp (body (postSse offline (JObj [(''id'', JNum 1), (''method'', JStr ''ping'')]))) ''error''
       = rpcError (- 32600) ''Invalid Request''
   \<and> isRequest (JObj [(''jsonrpc'', JStr ''2.0''), (''id'', JNum 2)])
   \<and> getProp (JObj [(''jsonrpc'', JStr ''2.0''), (''id'', JNum 2)]) ''method'' = JUndefined
   \<and> status (postSse offline (JObj [(''jsonrpc'', JStr ''2.0''), (''id'', JNum 2)])) = 400
   \<and> getProp (body (postSse offline (JObj [(''jsonrpc'', JStr ''2.0''), (''id'', JNum 2)]))) ''error''
       = rpcError (- 32600) ''Missing method''
   \<and> isRequest (request (JNum 3) ''resources/list'' JUndefined)
   \<and> getProp (request (JNum 3) ''resources/list'' JUndefined) ''method'' = JStr ''resources/list''
   \<and> ''resources/list'' \<notin> set knownMethods
   \<and> status (postSse offline (request (JNum 3) ''resources/list'' JUndefined)) = 200
   \<and> getProp (body (postSse offline (request (JNum 3) ''resources/list'' JUndefined))) ''error''
       = rpcError (- 32601) ''Method not found''"
proof -
  let ?a = "JObj [(''id'', JNum 1), (''method'', JStr ''ping'')]"
  let ?b = "JObj [(''jsonrpc'', JStr ''2.0''), (''id'', JNum 2)]"
  let ?c = "request (JNum 3) ''resources/list'' JUndefined"
  have ha: "getProp ?a ''jsonrpc'' = JUndefined" by simp
  have hb: "isRequest ?b" "getProp ?b ''method'' = JUndefined" by (simp_all add: isRequest_def)
  have hc: "isRequest ?c" "getProp ?c ''method'' = JStr ''resources/list''"
    "''resources/list'' \<notin> set knownMethods"
    by (simp_all add: isRequest_def request_props knownMethods_def)
  from method_not_found_and_invalid_request [where r = ?a and e = offline]
       method_not_found_and_invalid_request [where r = ?b and e = offline]
       method_not_found_and_invalid_request [where r = ?c and e = offline and m = "''resources/list''"]
       ha hb hc
  show ?thesis by simp
qed

lemma known_method_is_found:
  assumes "isRequest r" and "getProp r ''method'' = JStr m" and "m \<in> set knownMethods"
  shows "getProp (getProp (body (postSse e r)) ''error'') ''code'' \<noteq> JNum (- 32601)"
proof -
  from assms(1) have t: "truthy r" using truthy_getProp [of r "''jsonrpc''"] by (simp add: isRequest_def)
  from assms(3) have "m = ''initialize'' \<or> m = ''tools/list'' \<or> m = ''tools/call''
      \<or> m = ''notifications/initialized'' \<or> m = ''ping'' \<or> m = ''hello''"
    by (simp add: knownMethods_def)
  with assms(1,2) t show ?thesis
    by (elim disjE)
       (simp_all add: postSse_def isRequest_def toolsCall_def internalError_def resultEnvelope_def
          errorEnvelope_def toolFailure_def rpcError_def split: prod.splits sum.splits option.splits)
qed


section \<open>The tool registry\<close>

lemma toolDescriptors_names:
  "map (\<lambda>d. getProp d ''name'') toolDescriptors =
     map JStr [''get_work_item'', ''list_projects'', ''get_project'', ''create_work_item'',
               ''query_work_items'', ''list_repositories'', ''get_repository'', ''search_repository_code'']"
  by (simp add: toolDescriptors_def tool_name)

text \<open>
  C6: \<^verbatim>\<open>tools/list\<close> answers with the whole fixed list of tool descriptors, as written in
  the source, whatever the connection, the clock or the rest of the request are, and
  without touching the backend: two such requests, served under any two environments,
  get the same result. The handler keeps no state between requests, so what was served
  before does not enter.
\<close>

theorem tools_list_fixed:
  assumes "isRequest r" and "getProp r ''method'' = JStr ''tools/list''"
    and "isRequest r'" and "getProp r' ''method'' = JStr ''tools/list''"
  shows "postSse e r =
           \<lparr>status = 200,
            body = JObj [(''jsonrpc'', JStr ''2.0''), (''id'', getProp r ''id''),
                         (''result'', JObj [(''tools'', JArr toolDescriptors)])],
            calls = []\<rparr>
         \<and> getProp (body (postSse e' r')) ''result'' = getProp (body (postSse e r)) ''result''"
proof -
  have one: "postSse e r =
           \<lparr>status = 200,
            body = JObj [(''jsonrpc'', JStr ''2.0''), (''id'', getProp r ''id''),
                         (''result'', JObj [(''tools'', JArr toolDescriptors)])],
            calls = []\<rparr>"
    if "isRequest r" and "getProp r ''method'' = JStr ''tools/list''" for e r
  proof -
    from that have "truthy r" using truthy_getProp [of r "''jsonrpc''"] by (simp add: isRequest_def)
    with that show ?thesis by (simp add: postSse_def isRequest_def resultEnvelope_def)
  qed
  from one [OF assms(1,2), of e] one [OF assms(3,4), of e'] show ?thesis by simp
qed

theorem tools_list_fixed_witness:
  "isRequest (request (JNum 1) ''tools/list'' JUndefined)
   \<and> getProp (request (JNum 1) ''tools/list'' JUndefined) ''method'' = JStr ''tools/list''
   \<and> isRequest (request (JStr ''again'') ''tools/list'' (JObj [(''cursor'', JNum 3)]))
   \<and> getProp (request (JStr ''again'') ''tools/list'' (JObj [(''cursor'', JNum 3)])) ''method''
        = JStr ''tools/list''
   \<and> postSse offline (request (JNum 1) ''tools/list'' JUndefined) =
        \<lparr>status = 200,
         body = JObj [(''jsonrpc'', JStr ''2.0''), (''id'', JNum 1),
                      (''result'', JObj [(''tools'', JArr toolDescriptors)])],
         calls = []\<rparr>
   \<and> getProp (body (postSse online (request (JStr ''again'') ''tools/list'' (JObj [(''cursor'', JNum 3)]))))
        ''result''
       = getProp (body (postSse offline (request (JNum 1) ''tools/list'' JUndefined))) ''result''"
proof -
  let ?a = "request (JNum 1) ''tools/list'' JUndefined"
  let ?b = "request (JStr ''again'') ''tools/list'' (JObj [(''cursor'', JNum 3)])"
  have ha: "isRequest ?a" "getProp ?a ''method'' = JStr ''tools/list''"
    by (simp_all add: isRequest_def request_props)
  have hb: "isRequest ?b" "getProp ?b ''method'' = JStr ''tools/list''"
    by (simp_all add: isRequest_def request_props)
  from tools_list_fixed [OF ha hb, of offline online] ha hb
  show ?thesis by (simp add: request_props)
qed


section \<open>The code-search stub\<close>

text \<open>
  C7, as stated: a \<^verbatim>\<open>search_repository_code\<close> call with \<^verbatim>\<open>searchText\<close> returns the
  placeholder text as a success regardless of the connection state. On a server whose
  connection was never initialised the handler throws before it reaches the placeholder,
  and the call is answered with the -32603 error.
\<close>

theorem search_code_uninitialised_counterexample:
  "postSse offline (toolCall (JNum 1) ''search_repository_code'' [(''searchText'', JStr ''TODO'')]) =
     \<lparr>status = 200,
      body = JObj [(''jsonrpc'', JStr ''2.0''), (''id'', JNum 1),
                   (''error'', JObj [(''code'', JNum (- 32603)),
                                     (''message'', JStr ''Internal error executing tool''),
                                     (''data'', JStr ''Azure DevOps connection not initialized'')])],
      calls = []\<rparr>"
proof -
  let ?r = "toolCall (JNum 1) ''search_repository_code'' [(''searchText'', JStr ''TODO'')]"
  have "callTool (azureConnection offline) (toolNameOf ?r) (argumentsOf ?r)
          = throw ''Azure DevOps connection not initialized''"
    by (simp add: toolCall_props offline_def callTool_def searchRepositoryCodeDirect_def notInitialized_def)
  moreover have "logsQuietly (toolNameOf ?r)" by (simp add: toolCall_props logsQuietly_def toolCallLog_def)
  ultimately show ?thesis
    by (simp add: postSse_toolsCall toolCall_props toolsCall_throw errorEnvelope_def toolFailure_def)
qed

lemma search_code_quiet: "logsQuietly (JStr ''search_repository_code'')"
  by (simp add: logsQuietly_def toolCallLog_def)

lemma search_code_no_backend_call:
  "snd (callTool conn (JStr ''search_repository_code'') args) = []"
  by (cases conn)
     (simp_all add: callTool_def searchRepositoryCodeDirect_def template_def catch_def throw_def ret_def
        split: option.splits)

lemma search_code_unconvertible:
  assumes "isToolsCall r"
    and "toolNameOf r = JStr ''search_repository_code''"
    and "truthy (getProp (argumentsOf r) ''searchText'')"
    and "azureConnection e = Some conn"
    and "render (searchPlaceholder (getProp (argumentsOf r) ''searchText'')
                   (getProp (argumentsOf r) ''project'')
                   (getProp (argumentsOf r) ''repository'')) = None"
  shows "postSse e r =
           \<lparr>status = 200,
            body = errorEnvelope (getProp r ''id'')
                     (toolFailure (''Failed to search repository code: '' @ cannotConvert)),
            calls = []\<rparr>"
proof -
  from assms(2-5) have "callTool (azureConnection e) (toolNameOf r) (argumentsOf r)
      = throw (''Failed to search repository code: '' @ cannotConvert)"
    by (simp add: callTool_def searchRepositoryCodeDirect_def template_def catch_def throw_def)
  then show ?thesis
    using assms(1,2) search_code_quiet by (simp add: postSse_toolsCall toolsCall_throw)
qed

text \<open>
  C7, amended: for every \<^verbatim>\<open>tools/call\<close> naming \<^verbatim>\<open>search_repository_code\<close> with a truthy
  \<^verbatim>\<open>searchText\<close>, when the connection was initialised and the \<^verbatim>\<open>searchText\<close>,
  \<^verbatim>\<open>project\<close> and \<^verbatim>\<open>repository\<close> arguments convert to strings, the handler returns the
  placeholder text, built from these arguments alone, as a successful result, whatever
  the backend would answer; when the connection was not initialised the call fails with
  code -32603 and data \<^verbatim>\<open>Azure DevOps connection not initialized\<close>. In no case is the
  backend called.
\<close>

theorem search_code_placeholder:
  assumes "isToolsCall r"
    and "toolNameOf r = JStr ''search_repository_code''"
    and "truthy (getProp (argumentsOf r) ''searchText'')"
  shows "(azureConnection e = Some conn
            \<and> render (searchPlaceholder (getProp (argumentsOf r) ''searchText'')
                        (getProp (argumentsOf r) ''project'')
                        (getProp (argumentsOf r) ''repository'')) = Some text \<longrightarrow>
            postSse e r =
              \<lparr>status = 200,
               body = JObj [(''jsonrpc'', JStr ''2.0''), (''id'', getProp r ''id''),
                            (''result'',
                               JObj [(''content'',
                                        JArr [JObj [(''type'', JStr ''text''), (''text'', JStr text)]])])],
               calls = []\<rparr>)
         \<and> (azureConnection e = None \<longrightarrow>
            postSse e r =
              \<lparr>status = 200,
               body = JObj [(''jsonrpc'', JStr ''2.0''), (''id'', getProp r ''id''),
                            (''error'', JObj [(''code'', JNum (- 32603)),
                                              (''message'', JStr ''Internal error executing tool''),
                                              (''data'', JStr ''Azure DevOps connection not initialized'')])],
               calls = []\<rparr>)
         \<and> calls (postSse e r) = []"
proof (intro conjI impI)
  have q: "logsQuietly (toolNameOf r)" using assms(2) search_code_quiet by simp
  {
    assume a: "azureConnection e = Some conn
            \<and> render (searchPlaceholder (getProp (argumentsOf r) ''searchText'')
                        (getProp (argumentsOf r) ''project'')
                        (getProp (argumentsOf r) ''repository'')) = Some text"
    with assms(2,3) have "callTool (azureConnection e) (toolNameOf r) (argumentsOf r) = ret text"
      by (simp add: callTool_def searchRepositoryCodeDirect_def template_def catch_def ret_def)
    then show "postSse e r =
              \<lparr>status = 200,
               body = JObj [(''jsonrpc'', JStr ''2.0''), (''id'', getProp r ''id''),
                            (''result'',
                               JObj [(''content'',
                                        JArr [JObj [(''type'', JStr ''text''), (''text'', JStr text)]])])],
               calls = []\<rparr>"
      using assms(1) q by (simp add: postSse_toolsCall toolsCall_ret resultEnvelope_def textContent_def)
  }
  {
    assume "azureConnection e = None"
    with assms(2,3) have "callTool (azureConnection e) (toolNameOf r) (argumentsOf r)
        = throw ''Azure DevOps connection not initialized''"
      by (simp add: callTool_def searchRepositoryCodeDirect_def notInitialized_def)
    then show "postSse e r =
              \<lparr>status = 200,
               body = JObj [(''jsonrpc'', JStr ''2.0''), (''id'', getProp r ''id''),
                            (''error'', JObj [(''code'', JNum (- 32603)),
                                              (''message'', JStr ''Internal error executing tool''),
                                              (''data'', JStr ''Azure DevOps connection not initialized'')])],
               calls = []\<rparr>"
      using assms(1) q by (simp add: postSse_toolsCall toolsCall_throw errorEnvelope_def toolFailure_def)
  }
  obtain out cs where c: "callTool (azureConnection e) (toolNameOf r) (argumentsOf r) = (out, cs)"
    by (cases "callTool (azureConnection e) (toolNameOf r) (argumentsOf r)")
  with search_code_no_backend_call [of "azureConnection e" "argumentsOf r"] assms(2)
  have "cs = []" by simp
  with c show "calls (postSse e r) = []"
    using assms(1) q by (cases out) (simp_all add: postSse_toolsCall toolsCall_quiet)
qed

theorem search_code_placeholder_witness:
  "isToolsCall (toolCall (JNum 2) ''search_repository_code'' [(''searchText'', JStr ''TODO'')])
   \<and> toolNameOf (toolCall (JNum 2) ''search_repository_code'' [(''searchText'', JStr ''TODO'')])
        = JStr ''search_repository_code''
   \<and> truthy (getProp (argumentsOf (toolCall (JNum 2) ''search_repository_code''
                                      [(''searchText'', JStr ''TODO'')])) ''searchText'')
   \<and> azureConnection online = Some nullBackend
   \<and> render (searchPlaceholder (JStr ''TODO'') JUndefined JUndefined) =
        Some (''Code search functionality requires direct REST API implementation.'' @ nl @
              ''Search text: '' @ dq @ ''TODO'' @ dq @ nl @
              ''Project: All projects'' @ nl @
              ''Repository: All repositories'' @ nl @ nl @
              ''Note: The Azure DevOps Node API doesn'' @ [CHR 0x27] @ ''t expose the Search API directly. '' @
              ''To implement this, you would need to make direct REST API calls to:'' @ nl @
              ''POST https://almsearch.dev.azure.com/{organization}/{project}/_apis/search/codesearchresults?api-version=7.1'')
   \<and> postSse online (toolCall (JNum 2) ''search_repository_code'' [(''searchText'', JStr ''TODO'')]) =
        \<lparr>status = 200,
         body = JObj [(''jsonrpc'', JStr ''2.0''), (''id'', JNum 2),
                      (''result'',
                         JObj [(''content'',
                                  JArr [JObj [(''type'', JStr ''text''),
                                              (''text'',
                                                 JStr (''Code search functionality requires direct REST API implementation.'' @ nl @
              ''Search text: '' @ dq @ ''TODO'' @ dq @ nl @
              ''Project: All projects'' @ nl @
              ''Repository: All repositories'' @ nl @ nl @
              ''Note: The Azure DevOps Node API doesn'' @ [CHR 0x27] @ ''t expose the Search API directly. '' @
              ''To implement this, you would need to make direct REST API calls to:'' @ nl @
              ''POST https://almsearch.dev.azure.com/{organization}/{project}/_apis/search/codesearchresults?api-version=7.1''))]])])],
         calls = []\<rparr>"
proof -
  let ?r = "toolCall (JNum 2) ''search_repository_code'' [(''searchText'', JStr ''TODO'')]"
  let ?text = "''Code search functionality requires direct REST API implementation.'' @ nl @
              ''Search text: '' @ dq @ ''TODO'' @ dq @ nl @
              ''Project: All projects'' @ nl @
              ''Repository: All repositories'' @ nl @ nl @
              ''Note: The Azure DevOps Node API doesn'' @ [CHR 0x27] @ ''t expose the Search API directly. '' @
              ''To implement this, you would need to make direct REST API calls to:'' @ nl @
              ''POST https://almsearch.dev.azure.com/{organization}/{project}/_apis/search/codesearchresults?api-version=7.1''"
  have h1: "isToolsCall ?r" by (simp add: toolCall_props)
  have h2: "toolNameOf ?r = JStr ''search_repository_code''" by (simp add: toolCall_props)
  have h3: "truthy (getProp (argumentsOf ?r) ''searchText'')" by (simp add: toolCall_props)
  have h4: "azureConnection online = Some nullBackend" by (simp add: online_def)
  have h5: "render (searchPlaceholder (JStr ''TODO'') JUndefined JUndefined) = Some ?text"
    by (simp add: searchPlaceholder_def orElse_def)
  have h6: "azureConnection online = Some nullBackend
            \<and> render (searchPlaceholder (getProp (argumentsOf ?r) ''searchText'')
                        (getProp (argumentsOf ?r) ''project'')
                        (getProp (argumentsOf ?r) ''repository'')) = Some ?text"
    using h4 h5 by (simp add: toolCall_props)
  from search_code_placeholder [OF h1 h2 h3, of online nullBackend ?text] h6
  have "postSse online ?r =
        \<lparr>status = 200,
         body = JObj [(''jsonrpc'', JStr ''2.0''), (''id'', getProp ?r ''id''),
                      (''result'',
                         JObj [(''content'',
                                  JArr [JObj [(''type'', JStr ''text''), (''text'', JStr ?text)]])])],
         calls = []\<rparr>"
    by blast
  with h1 h2 h3 h4 h5 show ?thesis by (simp add: toolCall_props)
qed


section \<open>The event stream\<close>

lemma elapse_cleared: "timer s = None \<Longrightarrow> elapse ok T s = s"
  by (subst elapse.simps) simp


lemma elapse_due: "timer s = Some d \<Longrightarrow> d \<le> T \<Longrightarrow> elapse ok T s = elapse ok T (fire ok d s)"
  by (subst elapse.simps) simp






lemma cleared_unchanged: "timer s = None \<Longrightarrow> s\<lparr>timer := None\<rparr> = s"
  by (cases s) simp

lemma run_cleared: "timer s = None \<Longrightarrow> run ok s evs = s"
proof (induction evs)
  case Nil
  show ?case by simp
next
  case (Cons ev evs)
  then show ?case
    by (cases ev) (simp_all add: elapse_cleared onClose_def cleared_unchanged)
qed

text \<open>
  C9: a session is closed by the request's \<^verbatim>\<open>close\<close> event or by a heartbeat whose write
  throws. Either way the timer is cleared, nothing is written at that moment and nothing
  is raised, and the closed session is terminal: whatever happens afterwards (time
  passing, further close events, writes that would succeed again) leaves it as it is, so
  the timer is never armed again and no heartbeat is ever written again.
\<close>

theorem closed_session_is_terminal:
  assumes "closed = onClose s \<or> (timer s = Some d \<and> d \<le> T \<and> \<not> ok d \<and> closed = elapse ok T s)"
  shows "timer closed = None \<and> written closed = written s \<and> run ok' closed evs = closed"
proof -
  have "closed = s\<lparr>timer := None\<rparr>"
    using assms
  proof
    assume "closed = onClose s"
    then show ?thesis by (simp add: onClose_def)
  next
    assume a: "timer s = Some d \<and> d \<le> T \<and> \<not> ok d \<and> closed = elapse ok T s"
    then have "elapse ok T s = elapse ok T (fire ok d s)" by (simp add: elapse_due)
    also have "fire ok d s = s\<lparr>timer := None\<rparr>" using a by (simp add: fire_def)
    also have "elapse ok T (s\<lparr>timer := None\<rparr>) = s\<lparr>timer := None\<rparr>" by (simp add: elapse_cleared)
    finally show ?thesis using a by simp
  qed
  then have "timer closed = None" and "written closed = written s" by simp_all
  with run_cleared [of closed ok' evs] show ?thesis by simp
qed

theorem closed_session_is_terminal_witness:
  "timer (sseOpen ''0.k3x9'' 1000) = Some 31000 \<and> (31000::nat) \<le> 40000 \<and> \<not> (\<lambda>t::nat. t < 31000) 31000
   \<and> timer (elapse (\<lambda>t::nat. t < 31000) 40000 (sseOpen ''0.k3x9'' 1000)) = None
   \<and> written (elapse (\<lambda>t::nat. t < 31000) 40000 (sseOpen ''0.k3x9'' 1000)) = written (sseOpen ''0.k3x9'' 1000)
   \<and> run (\<lambda>t. True) (elapse (\<lambda>t::nat. t < 31000) 40000 (sseOpen ''0.k3x9'' 1000))
         [Elapse 100000, Close, Elapse 200000]
       = elapse (\<lambda>t::nat. t < 31000) 40000 (sseOpen ''0.k3x9'' 1000)"
proof -
  have h: "timer (sseOpen ''0.k3x9'' 1000) = Some 31000 \<and> (31000::nat) \<le> 40000
           \<and> \<not> (\<lambda>t::nat. t < 31000) (31000::nat)
           \<and> elapse (\<lambda>t::nat. t < 31000) 40000 (sseOpen ''0.k3x9'' 1000)
               = elapse (\<lambda>t::nat. t < 31000) 40000 (sseOpen ''0.k3x9'' 1000)"
    by (simp add: sseOpen_def Let_def heartbeatPeriod_def)
  from closed_session_is_terminal [OF disjI2, OF h, of "\<lambda>t. True" "[Elapse 100000, Close, Elapse 200000]"] h
  show ?thesis by simp
qed

end
